theory Spec2Isabelle
  imports Complex_Main "HOL-Library.Char_ord" "HOL-Library.List_Lexorder"
begin

section \<open>The WoW OBJ importer (import\_wowobj.py)\<close>

text \<open>
  The development embeds \<^verbatim>\<open>importWoWOBJ\<close> of
  \<^verbatim>\<open>addons/blender/2.80/io_scene_wowobj/import_wowobj.py\<close>: the OBJ and MTL
  line parsers, the placement-table loop and the recursive import of referenced models.

  Conventions of the embedding:
  \<^item> Python exceptions are values of \<open>py_error\<close>; a pure computation returns
    \<open>py_error + 'a\<close> (\<open>Inl\<close> the exception).
  \<^item> Byte strings and text are \<open>string\<close>; the files are taken to be ASCII, so that
    \<^verbatim>\<open>decode('utf-8')\<close> is the identity.
  \<^item> Python floats are idealised as \<open>real\<close> (no rounding); \<^verbatim>\<open>float(s)\<close> is a parameter
    \<open>pf :: string \<Rightarrow> real option\<close> (\<open>None\<close> is ValueError), so that every theorem holds
    for whatever strings Python accepts as floats.
  \<^item> \<^verbatim>\<open>os.path\<close> is the POSIX one.
\<close>

subsection \<open>Python values and library functions\<close>

datatype py_error =
  FileNotFoundError | IndexError | KeyError | ValueError | TypeError | AttributeError

text \<open>\<^verbatim>\<open>xs[i]\<close> on a Python list: a negative index counts from the end, an index out of
  range raises IndexError (\<open>None\<close> here).\<close>

definition py_nth :: "'a list \<Rightarrow> int \<Rightarrow> 'a option" where
  "py_nth xs i =
     (let n = int (length xs) in
      if 0 \<le> i \<and> i < n then Some (xs ! nat i)
      else if - n \<le> i \<and> i < 0 then Some (xs ! nat (n + i))
      else None)"

text \<open>The list after a mutation of \<^verbatim>\<open>xs[i]\<close> in place, for an index \<open>py_nth\<close> accepts.\<close>

definition py_upd :: "'a list \<Rightarrow> int \<Rightarrow> 'a \<Rightarrow> 'a list" where
  "py_upd xs i v = (if 0 \<le> i then xs[nat i := v] else xs[nat (int (length xs) + i) := v])"

text \<open>\<^verbatim>\<open>bytes.split()\<close> and \<^verbatim>\<open>str.split()\<close> with no argument: the maximal runs of
  non-whitespace characters. The two differ in what whitespace is: \<^verbatim>\<open>bytes\<close> has the six
  ASCII ones, \<^verbatim>\<open>str\<close> also the separators 0x1C to 0x1F.\<close>

definition bytes_space :: "char \<Rightarrow> bool" where
  "bytes_space c = (c \<in> set [CHR '' '', CHR 0x09, CHR 0x0A, CHR 0x0B, CHR 0x0C, CHR 0x0D])"

definition str_space :: "char \<Rightarrow> bool" where
  "str_space c = (c \<in> set [CHR '' '', CHR 0x09, CHR 0x0A, CHR 0x0B, CHR 0x0C, CHR 0x0D,
     CHR 0x1C, CHR 0x1D, CHR 0x1E, CHR 0x1F])"

fun split_acc :: "(char \<Rightarrow> bool) \<Rightarrow> string \<Rightarrow> string \<Rightarrow> string list" where
  "split_acc sp cur [] = (if cur = [] then [] else [cur])"
| "split_acc sp cur (c # cs) =
     (if sp c then (if cur = [] then split_acc sp [] cs else cur # split_acc sp [] cs)
      else split_acc sp (cur @ [c]) cs)"

definition split_ws :: "(char \<Rightarrow> bool) \<Rightarrow> string \<Rightarrow> string list" where
  "split_ws sp s = split_acc sp [] s"

text \<open>\<^verbatim>\<open>int(s)\<close> in base 10: an optional sign, then digits with single underscores allowed
  between them. \<open>None\<close> is ValueError.\<close>

definition digit_val :: "char \<Rightarrow> nat option" where
  "digit_val c =
     (if CHR ''0'' \<le> c \<and> c \<le> CHR ''9'' then Some (of_char c - of_char CHR ''0'') else None)"

fun digits_val :: "nat \<Rightarrow> string \<Rightarrow> nat option" where
  "digits_val acc [] = Some acc"
| "digits_val acc (c # cs) =
     (if c = CHR ''_'' then
        (case cs of [] \<Rightarrow> None
         | d # _ \<Rightarrow> (if d = CHR ''_'' then None else digits_val acc cs))
      else (case digit_val c of None \<Rightarrow> None | Some d \<Rightarrow> digits_val (10 * acc + d) cs))"

definition py_int :: "string \<Rightarrow> int option" where
  "py_int s =
     (let neg = (take 1 s = ''-'');
          body = (if take 1 s = ''-'' \<or> take 1 s = ''+'' then drop 1 s else s)
      in if body = [] \<or> take 1 body = ''_'' then None
         else (case digits_val 0 body of
                 None \<Rightarrow> None
               | Some n \<Rightarrow> Some (if neg then - int n else int n)))"

text \<open>\<^verbatim>\<open>[float(v) for v in tokens]\<close>: ValueError as soon as one token is no float.\<close>

definition floats :: "(string \<Rightarrow> real option) \<Rightarrow> string list \<Rightarrow> py_error + real list" where
  "floats pf ts = (case those (map pf ts) of None \<Rightarrow> Inl ValueError | Some xs \<Rightarrow> Inr xs)"

text \<open>\<^verbatim>\<open>s.replace(old, new)\<close> for a non-empty \<open>old\<close>: every occurrence, left to right.\<close>

function replace_str :: "string \<Rightarrow> string \<Rightarrow> string \<Rightarrow> string" where
  "replace_str old new [] = []"
| "replace_str old new (c # cs) =
     (if old \<noteq> [] \<and> take (length old) (c # cs) = old
      then new @ replace_str old new (drop (length old) (c # cs))
      else c # replace_str old new cs)"
  by pat_completeness auto
termination
  by (relation "measure (\<lambda>(old, new, s). length s)") (auto simp: neq_Nil_conv)

text \<open>\<^verbatim>\<open>os.path.split\<close>, \<^verbatim>\<open>os.path.basename\<close> and \<^verbatim>\<open>os.path.join\<close> of posixpath.\<close>

definition os_path_basename :: "string \<Rightarrow> string" where
  "os_path_basename p = rev (takeWhile (\<lambda>c. c \<noteq> CHR ''/'') (rev p))"

definition os_path_split :: "string \<Rightarrow> string \<times> string" where
  "os_path_split p =
     (let tail = os_path_basename p;
          head = take (length p - length tail) p;
          head' = (if head = [] \<or> head = replicate (length head) CHR ''/'' then head
                   else rev (dropWhile (\<lambda>c. c = CHR ''/'') (rev head)))
      in (head', tail))"

definition os_path_join :: "string \<Rightarrow> string \<Rightarrow> string" where
  "os_path_join a b =
     (if take 1 b = ''/'' then b
      else if a = [] \<or> last a = CHR ''/'' then a @ b
      else a @ ''/'' @ b)"

subsection \<open>The OBJ parser (lines 197 to 247)\<close>

text \<open>The per-group class \<^verbatim>\<open>OBJMesh\<close> and the variables of the parsing loop.\<close>

record OBJMesh =
  usemtl :: string
  gname :: string
  gverts :: "int set"
  faces :: "(int \<times> int \<times> int) list"

definition new_OBJMesh :: OBJMesh where
  "new_OBJMesh = \<lparr>usemtl = '''', gname = '''', gverts = {}, faces = []\<rparr>"

record obj_state =
  mtlfile :: string
  verts :: "real list list"
  normals :: "real list list"
  uvs :: "real list list list"
  meshes :: "OBJMesh list"
  meshIndex :: int

definition obj_init :: obj_state where
  "obj_init = \<lparr>mtlfile = '''', verts = [], normals = [], uvs = [], meshes = [], meshIndex = - 1\<rparr>"

text \<open>A \<^verbatim>\<open>vt\<close> line (lines 226 to 236). The layer index is read from the last character of
  the token when the token is longer than \<^verbatim>\<open>vt\<close>; one empty channel is appended when the
  index is not below the number of channels; then \<^verbatim>\<open>uvs[layer_index]\<close> is read, before
  the floats of the line are parsed.\<close>

definition vt_line ::
  "(string \<Rightarrow> real option) \<Rightarrow> string \<Rightarrow> string list \<Rightarrow> obj_state \<Rightarrow> py_error + obj_state" where
  "vt_line pf line_start args st =
     (case (if length line_start > 2
            then (case py_int [last line_start] of None \<Rightarrow> Inl ValueError | Some n \<Rightarrow> Inr (n - 1))
            else Inr 0) of
        Inl e \<Rightarrow> Inl e
      | Inr layer_index \<Rightarrow>
          (let uvs1 = (if int (length (uvs st)) \<le> layer_index then uvs st @ [[]] else uvs st) in
           case py_nth uvs1 layer_index of
             None \<Rightarrow> Inl IndexError
           | Some layer \<Rightarrow>
               (case floats pf args of
                  Inl e \<Rightarrow> Inl e
                | Inr uv \<Rightarrow> Inr (st\<lparr>uvs := py_upd uvs1 layer_index (layer @ [uv])\<rparr>))))"

text \<open>An \<^verbatim>\<open>f\<close> line (lines 237 to 241): the vertex index of a corner is the text before its
  first slash; the face is the first three indices; every index of the line, minus one,
  goes into the group's vertex set.\<close>

definition f_line :: "string list \<Rightarrow> obj_state \<Rightarrow> py_error + obj_state" where
  "f_line args st =
     (case those (map (\<lambda>v. py_int (takeWhile (\<lambda>c. c \<noteq> CHR ''/'') v)) args) of
        None \<Rightarrow> Inl ValueError
      | Some fv \<Rightarrow>
          (case py_nth (meshes st) (meshIndex st) of
             None \<Rightarrow> Inl IndexError
           | Some m \<Rightarrow>
               (case fv of
                  a # b # c # _ \<Rightarrow>
                    Inr (st\<lparr>meshes := py_upd (meshes st) (meshIndex st)
                          (m\<lparr>faces := faces m @ [(a, b, c)],
                             gverts := gverts m \<union> set (map (\<lambda>i. i - 1) fv)\<rparr>)\<rparr>)
                | _ \<Rightarrow> Inl IndexError)))"

definition g_line :: "string list \<Rightarrow> obj_state \<Rightarrow> py_error + obj_state" where
  "g_line args st =
     (case args of
        [] \<Rightarrow> Inl IndexError
      | a # _ \<Rightarrow>
          Inr (st\<lparr>meshIndex := meshIndex st + 1,
                  meshes := meshes st @ [new_OBJMesh\<lparr>gname := a\<rparr>]\<rparr>))"

definition usemtl_line :: "string list \<Rightarrow> obj_state \<Rightarrow> py_error + obj_state" where
  "usemtl_line args st =
     (case args of
        [] \<Rightarrow> Inl IndexError
      | a # _ \<Rightarrow>
          (case py_nth (meshes st) (meshIndex st) of
             None \<Rightarrow> Inl IndexError
           | Some m \<Rightarrow> Inr (st\<lparr>meshes := py_upd (meshes st) (meshIndex st) (m\<lparr>usemtl := a\<rparr>)\<rparr>)))"

text \<open>The body of the loop over the lines of the OBJ file, in the order of the source's
  \<^verbatim>\<open>if\<close>/\<^verbatim>\<open>elif\<close> chain.\<close>

definition obj_line :: "(string \<Rightarrow> real option) \<Rightarrow> string \<Rightarrow> obj_state \<Rightarrow> py_error + obj_state" where
  "obj_line pf line st =
     (case split_ws bytes_space line of
        [] \<Rightarrow> Inr st
      | line_start # args \<Rightarrow>
          if line_start = ''mtllib'' then
            (case args of [] \<Rightarrow> Inl IndexError | a # _ \<Rightarrow> Inr (st\<lparr>mtlfile := a\<rparr>))
          else if line_start = ''v'' then
            (case floats pf args of Inl e \<Rightarrow> Inl e | Inr v \<Rightarrow> Inr (st\<lparr>verts := verts st @ [v]\<rparr>))
          else if line_start = ''vn'' then
            (case floats pf args of Inl e \<Rightarrow> Inl e | Inr v \<Rightarrow> Inr (st\<lparr>normals := normals st @ [v]\<rparr>))
          else if take 2 line_start = ''vt'' then vt_line pf line_start args st
          else if line_start = ''f'' then f_line args st
          else if line_start = ''g'' then g_line args st
          else if line_start = ''usemtl'' then usemtl_line args st
          else Inr st)"

fun obj_lines :: "(string \<Rightarrow> real option) \<Rightarrow> string list \<Rightarrow> obj_state \<Rightarrow> py_error + obj_state" where
  "obj_lines pf [] st = Inr st"
| "obj_lines pf (l # ls) st =
     (case obj_line pf l st of Inl e \<Rightarrow> Inl e | Inr st' \<Rightarrow> obj_lines pf ls st')"

definition parse_obj :: "(string \<Rightarrow> real option) \<Rightarrow> string list \<Rightarrow> py_error + obj_state" where
  "parse_obj pf ls = obj_lines pf ls obj_init"

subsection \<open>The MTL parser (lines 253 to 268)\<close>

text \<open>The loop keeps \<^verbatim>\<open>matname\<close> and the dictionary \<^verbatim>\<open>materials\<close>; \<open>baseDir\<close> is the
  directory of the OBJ file being imported.\<close>

definition mtl_line ::
  "string \<Rightarrow> string \<Rightarrow> string \<times> (string \<rightharpoonup> string) \<Rightarrow> py_error + string \<times> (string \<rightharpoonup> string)" where
  "mtl_line baseDir line s =
     (case split_ws str_space line of
        [] \<Rightarrow> Inr s
      | line_start # args \<Rightarrow>
          if line_start = ''newmtl'' then
            (case args of [] \<Rightarrow> Inl IndexError | a # _ \<Rightarrow> Inr (a, snd s))
          else if line_start = ''map_Kd'' then
            (case args of
               [] \<Rightarrow> Inl IndexError
             | a # _ \<Rightarrow> Inr (fst s, (snd s)(fst s \<mapsto> os_path_join baseDir a)))
          else Inr s)"

fun mtl_lines ::
  "string \<Rightarrow> string list \<Rightarrow> string \<times> (string \<rightharpoonup> string) \<Rightarrow> py_error + string \<times> (string \<rightharpoonup> string)" where
  "mtl_lines baseDir [] s = Inr s"
| "mtl_lines baseDir (l # ls) s =
     (case mtl_line baseDir l s of Inl e \<Rightarrow> Inl e | Inr s' \<Rightarrow> mtl_lines baseDir ls s')"

text \<open>Lines 256 to 268: the library named by the last \<^verbatim>\<open>mtllib\<close> line is opened at
  \<^verbatim>\<open>os.path.join(baseDir, mtlfile)\<close>; \<open>fs\<close> maps a path to the lines of the file there.\<close>

definition load_materials ::
  "(string \<rightharpoonup> string list) \<Rightarrow> string \<Rightarrow> string \<Rightarrow> py_error + (string \<rightharpoonup> string)" where
  "load_materials fs baseDir mtl =
     (if mtl = [] then Inr Map.empty
      else (case fs (os_path_join baseDir mtl) of
              None \<Rightarrow> Inl FileNotFoundError
            | Some ls \<Rightarrow>
                (case mtl_lines baseDir ls ('''', Map.empty) of
                   Inl e \<Rightarrow> Inl e
                 | Inr s \<Rightarrow> Inr (snd s))))"

text \<open>The bindings a library makes, in file order, as the specification describes them:
  the current material name is the argument of the latest \<^verbatim>\<open>newmtl\<close> line, and a
  \<^verbatim>\<open>map_Kd\<close> line pairs it with the texture named on the line.\<close>

fun mtl_bindings :: "string \<Rightarrow> string list \<Rightarrow> (string \<times> string) list" where
  "mtl_bindings cur [] = []"
| "mtl_bindings cur (l # ls) =
     (case split_ws str_space l of
        t # a # _ \<Rightarrow>
          if t = ''newmtl'' then mtl_bindings a ls
          else if t = ''map_Kd'' then (cur, a) # mtl_bindings cur ls
          else mtl_bindings cur ls
      | _ \<Rightarrow> mtl_bindings cur ls)"

subsection \<open>The host: files, settings and the Blender scene\<close>

text \<open>
  The file system maps a path to the lines of the file there. \<^verbatim>\<open>Quaternion(...).to_euler()\<close>
  of mathutils and \<^verbatim>\<open>float\<close> are parameters of the host.
\<close>

record host =
  files :: "string \<rightharpoonup> string list"
  pyfloat :: "string \<Rightarrow> real option"
  to_euler :: "real \<times> real \<times> real \<times> real \<Rightarrow> real \<times> real \<times> real"

record settings =
  importTextures :: bool
  createVertexGroups :: bool
  importWMO :: bool
  importM2 :: bool
  importWMOSets :: bool
  importGOBJ :: bool
  allowDuplicates :: bool

text \<open>
  A Blender object is identified by its position in \<^verbatim>\<open>bpy.data.objects\<close> (objects are only
  ever added), a mesh datablock by its position in \<^verbatim>\<open>bpy.data.meshes\<close>. Two objects share
  their mesh exactly when their \<open>data\<close> fields are the same index. The scene also holds
  the custom property \<^verbatim>\<open>bpy.context.scene['importedModelIDs']\<close> (\<open>None\<close> when it was never
  set) and, to observe \<^verbatim>\<open>print\<close>, the lines written to standard output.
\<close>

type_synonym vec3 = "real \<times> real \<times> real"

record bobject =
  name :: string
  data :: "nat option"
  parent :: "nat option"
  location :: vec3
  rotation_euler :: vec3
  scale :: vec3
  vertex_groups :: "(string \<times> int set) list"

record bmesh =
  document :: obj_state
  textures :: "string \<rightharpoonup> string"

text \<open>A cell of a \<^verbatim>\<open>csv.DictReader\<close> row: a string, or \<^verbatim>\<open>None\<close> where the row is shorter
  than the header.\<close>

datatype pyval = PyNone | PyStr string

type_synonym csv_row = "string \<rightharpoonup> pyval"

record scene =
  objects :: "bobject list"
  mesh_data :: "bmesh list"
  collection :: "nat list"
  importedModelIDs :: "pyval list option"
  stdout :: "string list"

text \<open>
  A run of stateful code from a scene: it returns a value and the scene it leaves
  (\<open>Done\<close>), raises an exception, leaving the scene as mutated so far (\<open>Raised\<close>), or
  needs more nested calls of \<^verbatim>\<open>importWoWOBJ\<close> than the depth it was given (\<open>OutOfFuel\<close>).
\<close>

datatype 'a outcome = OutOfFuel | Raised py_error scene | Done 'a scene

type_synonym 'a run = "scene \<Rightarrow> 'a outcome"

definition ret :: "'a \<Rightarrow> 'a run" where
  "ret x = (\<lambda>sc. Done x sc)"

definition raise :: "py_error \<Rightarrow> 'a run" where
  "raise e = (\<lambda>sc. Raised e sc)"

definition bind :: "'a run \<Rightarrow> ('a \<Rightarrow> 'b run) \<Rightarrow> 'b run" where
  "bind m f = (\<lambda>sc. case m sc of
                       OutOfFuel \<Rightarrow> OutOfFuel
                     | Raised e sc' \<Rightarrow> Raised e sc'
                     | Done x sc' \<Rightarrow> f x sc')"

definition lift :: "py_error + 'a \<Rightarrow> 'a run" where
  "lift r = (case r of Inl e \<Rightarrow> raise e | Inr x \<Rightarrow> ret x)"

definition modify :: "(scene \<Rightarrow> scene) \<Rightarrow> unit run" where
  "modify f = (\<lambda>sc. Done () (f sc))"

definition py_print :: "string \<Rightarrow> unit run" where
  "py_print s = modify (\<lambda>sc. sc\<lparr>stdout := stdout sc @ [s]\<rparr>)"

subsubsection \<open>Names in \<^verbatim>\<open>bpy.data.objects\<close>\<close>

text \<open>\<^verbatim>\<open>str(n).rjust(3, '0')\<close> for a natural number.\<close>

fun py_str_nat :: "nat \<Rightarrow> string" where
  "py_str_nat n =
     (if n < 10 then [''0123456789'' ! n]
      else py_str_nat (n div 10) @ [''0123456789'' ! (n mod 10)])"

declare py_str_nat.simps [simp del]

definition rjust3 :: "string \<Rightarrow> string" where
  "rjust3 s = replicate (3 - length s) CHR ''0'' @ s"

text \<open>
  Blender keeps object names unique: a new object whose name is taken gets the first free
  name with a numeric suffix. The suffixes are tried as lines 277 to 282 of the source try
  them (\<open>name.001\<close>, \<open>name.002\<close>, ...); among \<open>length used + 1\<close> candidates one is free.
\<close>

fun next_free_name :: "string list \<Rightarrow> string \<Rightarrow> nat \<Rightarrow> nat \<Rightarrow> string" where
  "next_free_name used objname objindex 0 = objname @ ''.'' @ rjust3 (py_str_nat objindex)"
| "next_free_name used objname objindex (Suc k) =
     (let newname = objname @ ''.'' @ rjust3 (py_str_nat objindex) in
      if newname \<in> set used then next_free_name used objname (objindex + 1) k else newname)"

definition unique_name :: "string list \<Rightarrow> string \<Rightarrow> string" where
  "unique_name used nm = (if nm \<in> set used then next_free_name used nm 1 (length used) else nm)"

text \<open>\<^verbatim>\<open>name in bpy.data.objects\<close> and \<^verbatim>\<open>bpy.data.objects[name]\<close>.\<close>

definition in_objects :: "string \<Rightarrow> scene \<Rightarrow> bool" where
  "in_objects nm sc = (nm \<in> set (map name (objects sc)))"

fun index_of :: "string \<Rightarrow> bobject list \<Rightarrow> nat option" where
  "index_of nm [] = None"
| "index_of nm (ob # obs) =
     (if name ob = nm then Some 0 else map_option Suc (index_of nm obs))"

definition objects_get :: "string \<Rightarrow> nat run" where
  "objects_get nm = (\<lambda>sc. case index_of nm (objects sc) of
                            None \<Rightarrow> Raised KeyError sc
                          | Some i \<Rightarrow> Done i sc)"

subsubsection \<open>Host calls\<close>

text \<open>\<^verbatim>\<open>bpy.data.objects.new(name, data)\<close>: a new object with the identity transform.\<close>

definition objects_new :: "string \<Rightarrow> nat option \<Rightarrow> nat run" where
  "objects_new nm d = (\<lambda>sc.
     Done (length (objects sc))
       (sc\<lparr>objects := objects sc @
          [\<lparr>name = unique_name (map name (objects sc)) nm, data = d, parent = None,
            location = (0, 0, 0), rotation_euler = (0, 0, 0), scale = (1, 1, 1),
            vertex_groups = []\<rparr>]\<rparr>))"

text \<open>\<^verbatim>\<open>ob.copy()\<close>: a new object with every field of \<open>ob\<close>, its mesh datablock included
  (the copy shares it), under a fresh name.\<close>

definition object_copy :: "nat \<Rightarrow> nat run" where
  "object_copy i = (\<lambda>sc.
     Done (length (objects sc))
       (sc\<lparr>objects := objects sc @
          [(objects sc ! i)\<lparr>name := unique_name (map name (objects sc)) (name (objects sc ! i))\<rparr>]\<rparr>))"

text \<open>An assignment to attributes of the object \<open>i\<close>.\<close>

definition set_obj :: "nat \<Rightarrow> (bobject \<Rightarrow> bobject) \<Rightarrow> unit run" where
  "set_obj i f = modify (\<lambda>sc. sc\<lparr>objects := (objects sc)[i := f (objects sc ! i)]\<rparr>)"

text \<open>\<^verbatim>\<open>ob.name = nm\<close>: the name is made unique among the other objects.\<close>

definition rename :: "nat \<Rightarrow> string \<Rightarrow> unit run" where
  "rename i nm = modify (\<lambda>sc.
     sc\<lparr>objects := (objects sc)
       [i := (objects sc ! i)\<lparr>name := unique_name (map name (take i (objects sc) @ drop (Suc i) (objects sc))) nm\<rparr>]\<rparr>)"

definition link :: "nat \<Rightarrow> unit run" where
  "link i = modify (\<lambda>sc. sc\<lparr>collection := collection sc @ [i]\<rparr>)"

text \<open>\<^verbatim>\<open>bpy.data.meshes.new\<close> followed by the construction of the mesh, and \<^verbatim>\<open>mesh.copy()\<close>.\<close>

definition meshes_new :: "bmesh \<Rightarrow> nat run" where
  "meshes_new m = (\<lambda>sc. Done (length (mesh_data sc)) (sc\<lparr>mesh_data := mesh_data sc @ [m]\<rparr>))"

definition mesh_copy :: "nat \<Rightarrow> nat run" where
  "mesh_copy k = (\<lambda>sc.
     Done (length (mesh_data sc)) (sc\<lparr>mesh_data := mesh_data sc @ [mesh_data sc ! k]\<rparr>))"

definition radians :: "real \<Rightarrow> real" where
  "radians d = d * pi / 180"

subsubsection \<open>Rows of a placement table\<close>

text \<open>
  \<^verbatim>\<open>csv.DictReader(csvFile, delimiter=';')\<close>: a line is cut at every semicolon (quoting is
  not modelled), a blank line has no cells and is skipped, the cells are keyed by the
  header's names (the last of two equal names wins), and a row shorter than the header
  has \<^verbatim>\<open>None\<close> in the cells it lacks.
\<close>

fun split_char :: "char \<Rightarrow> string \<Rightarrow> string \<Rightarrow> string list" where
  "split_char sep cur [] = [cur]"
| "split_char sep cur (c # cs) =
     (if c = sep then cur # split_char sep [] cs else split_char sep (cur @ [c]) cs)"

definition csv_cells :: "string \<Rightarrow> string list" where
  "csv_cells l = (if l = [] then [] else split_char CHR '';'' [] l)"

definition dict_row :: "string list \<Rightarrow> string list \<Rightarrow> csv_row" where
  "dict_row fieldnames cells =
     map_of (rev (zip fieldnames
       (map PyStr cells @ replicate (length fieldnames - length cells) PyNone)))"

definition reader_rows :: "string list \<Rightarrow> string list \<Rightarrow> csv_row list" where
  "reader_rows fieldnames ls =
     map (dict_row fieldnames) (filter (\<lambda>cells. cells \<noteq> []) (map csv_cells ls))"

text \<open>\<^verbatim>\<open>row[key]\<close>, \<^verbatim>\<open>row[key]\<close> where a string is needed, and \<^verbatim>\<open>float(row[key])\<close>.\<close>

definition row_get :: "csv_row \<Rightarrow> string \<Rightarrow> py_error + pyval" where
  "row_get row k = (case row k of None \<Rightarrow> Inl KeyError | Some v \<Rightarrow> Inr v)"

definition row_str :: "csv_row \<Rightarrow> string \<Rightarrow> py_error + string" where
  "row_str row k =
     (case row k of
        None \<Rightarrow> Inl KeyError
      | Some PyNone \<Rightarrow> Inl TypeError
      | Some (PyStr s) \<Rightarrow> Inr s)"

definition row_float :: "host \<Rightarrow> csv_row \<Rightarrow> string \<Rightarrow> py_error + real" where
  "row_float h row k =
     (case row_str row k of
        Inl e \<Rightarrow> Inl e
      | Inr s \<Rightarrow> (case pyfloat h s of None \<Rightarrow> Inl ValueError | Some x \<Rightarrow> Inr x))"

text \<open>Lines 456-457, 496-497, 513-514 and 534-535: a uniform scale when the cell
  \<^verbatim>\<open>ScaleFactor\<close> is a non-empty string; \<^verbatim>\<open>None\<close> and the empty string leave the scale as
  it is.\<close>

definition apply_scale :: "host \<Rightarrow> csv_row \<Rightarrow> nat \<Rightarrow> unit run" where
  "apply_scale h row ob =
     bind (lift (row_get row ''ScaleFactor'')) (\<lambda>v.
       if v = PyNone \<or> v = PyStr '''' then ret ()
       else bind (lift (row_float h row ''ScaleFactor'')) (\<lambda>s.
              set_obj ob (\<lambda>b. b\<lparr>scale := (s, s, s)\<rparr>)))"

subsection \<open>Placement rows (lines 430 to 535)\<close>

definition gets :: "(scene \<Rightarrow> 'a) \<Rightarrow> 'a run" where
  "gets f = (\<lambda>sc. Done (f sc) sc)"

definition os_path_exists :: "host \<Rightarrow> string \<Rightarrow> bool" where
  "os_path_exists h p = (case files h p of None \<Rightarrow> False | Some ls \<Rightarrow> True)"

definition csv_path :: "string \<Rightarrow> string" where
  "csv_path p = replace_str ''.obj'' ''_ModelPlacementInformation.csv'' p"

text \<open>Line 379.\<close>

definition max_size :: real where
  "max_size = 51200 / 3"

text \<open>Assignments to one component of a vector attribute.\<close>

definition set_x :: "real \<Rightarrow> vec3 \<Rightarrow> vec3" where
  "set_x v p = (v, fst (snd p), snd (snd p))"

definition set_y :: "real \<Rightarrow> vec3 \<Rightarrow> vec3" where
  "set_y v p = (fst p, v, snd (snd p))"

definition set_z :: "real \<Rightarrow> vec3 \<Rightarrow> vec3" where
  "set_z v p = (fst p, fst (snd p), v)"

text \<open>
  The Euler rule of the wmo and m2 rows (lines 452 to 454 and 493 to 495):
  \<^verbatim>\<open>rotation_euler.x += radians(RotationZ)\<close>, \<^verbatim>\<open>.y += radians(RotationX)\<close>,
  \<^verbatim>\<open>.z = radians(90 + RotationY)\<close>, each cell parsed when its line is reached.
\<close>

definition adt_rotation :: "host \<Rightarrow> csv_row \<Rightarrow> nat \<Rightarrow> unit run" where
  "adt_rotation h row ob =
     bind (lift (row_float h row ''RotationZ'')) (\<lambda>rz.
     bind (set_obj ob (\<lambda>b. b\<lparr>rotation_euler := set_x (fst (rotation_euler b) + radians rz) (rotation_euler b)\<rparr>)) (\<lambda>_.
     bind (lift (row_float h row ''RotationX'')) (\<lambda>rx.
     bind (set_obj ob (\<lambda>b. b\<lparr>rotation_euler := set_y (fst (snd (rotation_euler b)) + radians rx) (rotation_euler b)\<rparr>)) (\<lambda>_.
     bind (lift (row_float h row ''RotationY'')) (\<lambda>ry.
     set_obj ob (\<lambda>b. b\<lparr>rotation_euler := set_z (radians (90 + ry)) (rotation_euler b)\<rparr>))))))"

text \<open>
  Lines 482 to 486 and 502 to 506: the object named like the model file is copied (the
  copy shares its mesh), the copy's rotation is reset to the import orientation, and the
  copy is linked. Lines 522 to 524 copy and link without the reset.
\<close>

definition copy_existing :: "string \<Rightarrow> bool \<Rightarrow> nat run" where
  "copy_existing nm reset =
     bind (objects_get nm) (\<lambda>originalObject.
     bind (object_copy originalObject) (\<lambda>importedFile.
     bind (if reset then
             bind (set_obj importedFile (\<lambda>b. b\<lparr>rotation_euler := (0, 0, 0)\<rparr>)) (\<lambda>_.
             set_obj importedFile (\<lambda>b. b\<lparr>rotation_euler := set_x (radians 90) (rotation_euler b)\<rparr>))
           else ret ()) (\<lambda>_.
     bind (link importedFile) (\<lambda>_.
     ret importedFile))))"

text \<open>
  Lines 479 to 486, 499 to 506 and 519 to 524, the source's comment: ``Only import OBJ
  if model is not yet in scene, otherwise copy existing''. \<open>rec\<close> is the nested
  \<^verbatim>\<open>importWoWOBJ\<close>, called when no object has the base name of the model file.
\<close>

definition obtain_model ::
  "(string \<Rightarrow> nat option \<Rightarrow> nat run) \<Rightarrow> string \<Rightarrow> string \<Rightarrow> bool \<Rightarrow> nat run" where
  "obtain_model rec baseDir mf reset =
     bind (gets (in_objects (os_path_basename mf))) (\<lambda>present.
     if present then copy_existing (os_path_basename mf) reset
     else rec (os_path_join baseDir mf) None)"

text \<open>Lines 469 to 472: the existing object is copied, the copy gets a copy of the mesh
  of its own (\<^verbatim>\<open>originalObject.data.copy()\<close>, an AttributeError when the original is an
  empty) and is linked.\<close>

definition copy_with_mesh :: "string \<Rightarrow> nat run" where
  "copy_with_mesh nm =
     bind (objects_get nm) (\<lambda>originalObject.
     bind (object_copy originalObject) (\<lambda>importedFile.
     bind (gets (\<lambda>sc. data (objects sc ! originalObject))) (\<lambda>d.
     bind (case d of None \<Rightarrow> raise AttributeError | Some k \<Rightarrow> mesh_copy k) (\<lambda>k'.
     bind (set_obj importedFile (\<lambda>b. b\<lparr>data := Some k'\<rparr>)) (\<lambda>_.
     bind (link importedFile) (\<lambda>_.
     ret importedFile))))))"

text \<open>
  A row of type \<^verbatim>\<open>wmo\<close> (lines 445 to 474). The transform goes to a new empty
  (\<open>wmo_parent\<close>, lines 448 to 459), the parent of the model. The model is imported by a
  nested call when no object has its base name, or when a placement table lies beside the
  model file (``Don't copy WMOs with doodads!''); otherwise the existing object is copied
  together with its mesh.
\<close>

definition wmo_parent :: "host \<Rightarrow> nat option \<Rightarrow> csv_row \<Rightarrow> string \<Rightarrow> nat run" where
  "wmo_parent h wmoparent row mf =
     bind (objects_new (os_path_basename mf @ '' parent'') None) (\<lambda>parent.
     bind (set_obj parent (\<lambda>b. b\<lparr>parent := wmoparent\<rparr>)) (\<lambda>_.
     bind (lift (row_float h row ''PositionX'')) (\<lambda>px.
     bind (lift (row_float h row ''PositionZ'')) (\<lambda>pz.
     bind (lift (row_float h row ''PositionY'')) (\<lambda>py.
     bind (set_obj parent (\<lambda>b. b\<lparr>location := (max_size - px, (max_size - pz) * - 1, py)\<rparr>)) (\<lambda>_.
     bind (set_obj parent (\<lambda>b. b\<lparr>rotation_euler := (0, 0, 0)\<rparr>)) (\<lambda>_.
     bind (adt_rotation h row parent) (\<lambda>_.
     bind (apply_scale h row parent) (\<lambda>_.
     bind (link parent) (\<lambda>_.
     ret parent))))))))))"

definition adt_wmo ::
  "(string \<Rightarrow> nat option \<Rightarrow> nat run) \<Rightarrow> host \<Rightarrow> string \<Rightarrow> nat option \<Rightarrow> csv_row \<Rightarrow> nat run" where
  "adt_wmo rec h baseDir wmoparent row =
     bind (lift (row_str row ''ModelFile'')) (\<lambda>mf.
     bind (py_print (''ADT WMO import: '' @ mf)) (\<lambda>_.
     bind (wmo_parent h wmoparent row mf) (\<lambda>parent.
     bind (gets (in_objects (os_path_basename mf))) (\<lambda>present.
     bind (if present then
             (if os_path_exists h (os_path_join baseDir (csv_path mf))
              then rec (os_path_join baseDir mf) (Some parent)
              else copy_with_mesh (os_path_basename mf))
           else rec (os_path_join baseDir mf) (Some parent)) (\<lambda>importedFile.
     bind (set_obj importedFile (\<lambda>b. b\<lparr>parent := Some parent\<rparr>)) (\<lambda>_.
     ret importedFile))))))"

text \<open>A row of type \<^verbatim>\<open>m2\<close> (lines 476 to 497): the model is obtained, then the transform
  is written to the model itself (\<open>m2_place\<close>, lines 488 to 497).\<close>

definition m2_place :: "host \<Rightarrow> nat option \<Rightarrow> csv_row \<Rightarrow> nat \<Rightarrow> unit run" where
  "m2_place h doodadparent row importedFile =
     bind (set_obj importedFile (\<lambda>b. b\<lparr>parent := doodadparent\<rparr>)) (\<lambda>_.
     bind (lift (row_float h row ''PositionX'')) (\<lambda>px.
     bind (set_obj importedFile (\<lambda>b. b\<lparr>location := set_x (max_size - px) (location b)\<rparr>)) (\<lambda>_.
     bind (lift (row_float h row ''PositionZ'')) (\<lambda>pz.
     bind (set_obj importedFile (\<lambda>b. b\<lparr>location := set_y ((max_size - pz) * - 1) (location b)\<rparr>)) (\<lambda>_.
     bind (lift (row_float h row ''PositionY'')) (\<lambda>py.
     bind (set_obj importedFile (\<lambda>b. b\<lparr>location := set_z py (location b)\<rparr>)) (\<lambda>_.
     bind (adt_rotation h row importedFile) (\<lambda>_.
     apply_scale h row importedFile))))))))"

definition adt_m2 ::
  "(string \<Rightarrow> nat option \<Rightarrow> nat run) \<Rightarrow> host \<Rightarrow> string \<Rightarrow> nat option \<Rightarrow> csv_row \<Rightarrow> nat run" where
  "adt_m2 rec h baseDir doodadparent row =
     bind (lift (row_str row ''ModelFile'')) (\<lambda>mf.
     bind (py_print (''ADT M2 import: '' @ mf)) (\<lambda>_.
     bind (obtain_model rec baseDir mf True) (\<lambda>importedFile.
     bind (m2_place h doodadparent row importedFile) (\<lambda>_.
     ret importedFile))))"

text \<open>A row of type \<^verbatim>\<open>gobj\<close> (lines 499 to 514).\<close>

definition gobj_place :: "host \<Rightarrow> nat option \<Rightarrow> csv_row \<Rightarrow> nat \<Rightarrow> unit run" where
  "gobj_place h gobjparent row importedFile =
     bind (set_obj importedFile (\<lambda>b. b\<lparr>parent := gobjparent\<rparr>)) (\<lambda>_.
     bind (lift (row_float h row ''PositionY'')) (\<lambda>py.
     bind (lift (row_float h row ''PositionX'')) (\<lambda>px.
     bind (lift (row_float h row ''PositionZ'')) (\<lambda>pz.
     bind (set_obj importedFile (\<lambda>b. b\<lparr>location := (py, - px, pz)\<rparr>)) (\<lambda>_.
     bind (lift (row_float h row ''RotationX'')) (\<lambda>rx.
     bind (lift (row_float h row ''RotationY'')) (\<lambda>ry.
     bind (lift (row_float h row ''RotationZ'')) (\<lambda>rz.
     bind (lift (row_float h row ''RotationW'')) (\<lambda>rw.
     bind (set_obj importedFile (\<lambda>b. b\<lparr>rotation_euler := to_euler h (rx, ry, - rz, rw)\<rparr>)) (\<lambda>_.
     apply_scale h row importedFile))))))))))"

definition adt_gobj ::
  "(string \<Rightarrow> nat option \<Rightarrow> nat run) \<Rightarrow> host \<Rightarrow> string \<Rightarrow> nat option \<Rightarrow> csv_row \<Rightarrow> nat run" where
  "adt_gobj rec h baseDir gobjparent row =
     bind (lift (row_str row ''ModelFile'')) (\<lambda>mf.
     bind (obtain_model rec baseDir mf True) (\<lambda>importedFile.
     bind (gobj_place h gobjparent row importedFile) (\<lambda>_.
     ret importedFile)))"

text \<open>
  The body of the loop for a table with a \<^verbatim>\<open>Type\<close> column (lines 432 to 515). The list
  of imported model ids is read from the scene (empty when the property is not set); a row
  whose \<^verbatim>\<open>ModelId\<close> is in it is skipped with a message unless duplicates are allowed, any
  other id is appended; the row is dispatched on its type and the import flags; then the
  list is stored in the scene (line 515). The value is the object the row placed
  (\<^verbatim>\<open>importedFile\<close>), \<open>None\<close> when it placed none.
\<close>

definition adt_dispatch ::
  "(string \<Rightarrow> nat option \<Rightarrow> nat run) \<Rightarrow> host \<Rightarrow> settings \<Rightarrow> string \<Rightarrow>
   nat option \<Rightarrow> nat option \<Rightarrow> nat option \<Rightarrow> csv_row \<Rightarrow> nat option run" where
  "adt_dispatch rec h cfg baseDir wmoparent doodadparent gobjparent row =
     bind (lift (row_get row ''Type'')) (\<lambda>ty.
       if ty = PyStr ''wmo'' \<and> importWMO cfg then
         bind (adt_wmo rec h baseDir wmoparent row) (\<lambda>i. ret (Some i))
       else if ty = PyStr ''m2'' \<and> importM2 cfg then
         bind (adt_m2 rec h baseDir doodadparent row) (\<lambda>i. ret (Some i))
       else if ty = PyStr ''gobj'' \<and> importGOBJ cfg then
         bind (adt_gobj rec h baseDir gobjparent row) (\<lambda>i. ret (Some i))
       else ret None)"

definition adt_row ::
  "(string \<Rightarrow> nat option \<Rightarrow> nat run) \<Rightarrow> host \<Rightarrow> settings \<Rightarrow> string \<Rightarrow>
   nat option \<Rightarrow> nat option \<Rightarrow> nat option \<Rightarrow> csv_row \<Rightarrow> nat option run" where
  "adt_row rec h cfg baseDir wmoparent doodadparent gobjparent row =
     bind (gets importedModelIDs) (\<lambda>prop.
     let tempModelIDList = (case prop of None \<Rightarrow> [] | Some l \<Rightarrow> l) in
     bind (lift (row_get row ''ModelId'')) (\<lambda>mid.
       if mid \<in> set tempModelIDList then
         (if allowDuplicates cfg then
            bind (adt_dispatch rec h cfg baseDir wmoparent doodadparent gobjparent row) (\<lambda>i.
            bind (modify (\<lambda>sc. sc\<lparr>importedModelIDs := Some tempModelIDList\<rparr>)) (\<lambda>_.
            ret i))
          else
            bind (lift (case mid of PyNone \<Rightarrow> Inl TypeError | PyStr s \<Rightarrow> Inr s)) (\<lambda>s.
            bind (py_print (''Skipping already imported model '' @ s)) (\<lambda>_.
            ret None)))
       else
         bind (adt_dispatch rec h cfg baseDir wmoparent doodadparent gobjparent row) (\<lambda>i.
         bind (modify (\<lambda>sc. sc\<lparr>importedModelIDs := Some (tempModelIDList @ [mid])\<rparr>)) (\<lambda>_.
         ret i))))"

fun adt_rows ::
  "(string \<Rightarrow> nat option \<Rightarrow> nat run) \<Rightarrow> host \<Rightarrow> settings \<Rightarrow> string \<Rightarrow>
   nat option \<Rightarrow> nat option \<Rightarrow> nat option \<Rightarrow> csv_row list \<Rightarrow> unit run" where
  "adt_rows rec h cfg baseDir wmoparent doodadparent gobjparent [] = ret ()"
| "adt_rows rec h cfg baseDir wmoparent doodadparent gobjparent (row # rows) =
     bind (adt_row rec h cfg baseDir wmoparent doodadparent gobjparent row) (\<lambda>_.
     adt_rows rec h cfg baseDir wmoparent doodadparent gobjparent rows)"

text \<open>A row of a table without a \<^verbatim>\<open>Type\<close> column (lines 516 to 535), read only when
  \<^verbatim>\<open>importWMOSets\<close> is set.\<close>

definition wmo_set_place :: "host \<Rightarrow> nat \<Rightarrow> nat option \<Rightarrow> csv_row \<Rightarrow> nat \<Rightarrow> unit run" where
  "wmo_set_place h obj givenParent row importedFile =
     bind (lift (row_float h row ''PositionX'')) (\<lambda>px.
     bind (lift (row_float h row ''PositionY'')) (\<lambda>py.
     bind (lift (row_float h row ''PositionZ'')) (\<lambda>pz.
     bind (set_obj importedFile (\<lambda>b. b\<lparr>location := (px, py, pz)\<rparr>)) (\<lambda>_.
     bind (set_obj importedFile (\<lambda>b. b\<lparr>rotation_euler := (0, 0, 0)\<rparr>)) (\<lambda>_.
     bind (lift (row_float h row ''RotationW'')) (\<lambda>rw.
     bind (lift (row_float h row ''RotationX'')) (\<lambda>rx.
     bind (lift (row_float h row ''RotationY'')) (\<lambda>ry.
     bind (lift (row_float h row ''RotationZ'')) (\<lambda>rz.
     bind (set_obj importedFile (\<lambda>b. b\<lparr>rotation_euler :=
             set_x (fst (to_euler h (rw, rx, ry, rz)) + radians 90) (to_euler h (rw, rx, ry, rz))\<rparr>)) (\<lambda>_.
     bind (set_obj importedFile (\<lambda>b. b\<lparr>parent := Some (case givenParent of None \<Rightarrow> obj | Some g \<Rightarrow> g)\<rparr>)) (\<lambda>_.
     apply_scale h row importedFile)))))))))))"

definition wmo_row ::
  "(string \<Rightarrow> nat option \<Rightarrow> nat run) \<Rightarrow> host \<Rightarrow> string \<Rightarrow> nat \<Rightarrow> nat option \<Rightarrow> csv_row \<Rightarrow> nat run" where
  "wmo_row rec h baseDir obj givenParent row =
     bind (lift (row_str row ''ModelFile'')) (\<lambda>mf.
     bind (py_print (''WMO M2 import: '' @ mf)) (\<lambda>_.
     bind (obtain_model rec baseDir mf False) (\<lambda>importedFile.
     bind (wmo_set_place h obj givenParent row importedFile) (\<lambda>_.
     ret importedFile))))"

fun wmo_rows ::
  "(string \<Rightarrow> nat option \<Rightarrow> nat run) \<Rightarrow> host \<Rightarrow> settings \<Rightarrow> string \<Rightarrow> nat \<Rightarrow> nat option \<Rightarrow>
   csv_row list \<Rightarrow> unit run" where
  "wmo_rows rec h cfg baseDir obj givenParent [] = ret ()"
| "wmo_rows rec h cfg baseDir obj givenParent (row # rows) =
     bind (if importWMOSets cfg
           then bind (wmo_row rec h baseDir obj givenParent row) (\<lambda>_. ret ())
           else ret ()) (\<lambda>_.
     wmo_rows rec h cfg baseDir obj givenParent rows)"

subsection \<open>\<^verbatim>\<open>importWoWOBJ\<close> (lines 192 to 537)\<close>

text \<open>Lines 393 to 418 and 421 to 429: the empties that group the placed models.\<close>

definition new_group :: "string \<Rightarrow> string \<Rightarrow> nat \<Rightarrow> nat run" where
  "new_group nm nm' obj =
     bind (objects_new nm None) (\<lambda>p.
     bind (set_obj p (\<lambda>b. b\<lparr>parent := Some obj\<rparr>)) (\<lambda>_.
     bind (rename p nm') (\<lambda>_.
     bind (set_obj p (\<lambda>b. b\<lparr>rotation_euler := (0, 0, 0)\<rparr>)) (\<lambda>_.
     bind (set_obj p (\<lambda>b. b\<lparr>rotation_euler := set_x (radians (- 90)) (rotation_euler b)\<rparr>)) (\<lambda>_.
     bind (link p) (\<lambda>_.
     ret p))))))"

definition group_parent :: "bool \<Rightarrow> string \<Rightarrow> nat \<Rightarrow> nat option run" where
  "group_parent enabled nm obj =
     (if enabled then bind (new_group nm nm obj) (\<lambda>p. ret (Some p)) else ret None)"

definition wmo_given_parent :: "settings \<Rightarrow> nat \<Rightarrow> nat option \<Rightarrow> nat option run" where
  "wmo_given_parent cfg obj givenParent =
     (case givenParent of
        Some g \<Rightarrow> ret (Some g)
      | None \<Rightarrow>
          bind (py_print ''WMO import without given parent, creating..'') (\<lambda>_.
          if importWMOSets cfg
          then bind (new_group ''WMO parent'' ''Doodads'' obj) (\<lambda>p. ret (Some p))
          else ret None))"

text \<open>Lines 384 to 535: the placement table beside the OBJ file, when an import flag is
  set and the file exists. An empty file has no header (\<^verbatim>\<open>fieldnames\<close> is \<^verbatim>\<open>None\<close>), and
  the test of line 390 raises TypeError.\<close>

definition placements ::
  "(string \<Rightarrow> nat option \<Rightarrow> nat run) \<Rightarrow> host \<Rightarrow> settings \<Rightarrow> string \<Rightarrow> string \<Rightarrow> nat \<Rightarrow>
   nat option \<Rightarrow> unit run" where
  "placements rec h cfg objectFile baseDir obj givenParent =
     (let csvPath = csv_path objectFile;
          use_csv = (importWMO cfg \<or> importM2 cfg \<or> importWMOSets cfg \<or> importGOBJ cfg) in
      if use_csv \<and> os_path_exists h csvPath then
        (case files h csvPath of
           None \<Rightarrow> raise FileNotFoundError
         | Some [] \<Rightarrow> raise TypeError
         | Some (header # ls) \<Rightarrow>
             (let fieldnames = csv_cells header; rows = reader_rows fieldnames ls in
              if ''Type'' \<in> set fieldnames then
                bind (group_parent (importWMO cfg) ''WMOs'' obj) (\<lambda>wmoparent.
                bind (group_parent (importM2 cfg) ''Doodads'' obj) (\<lambda>doodadparent.
                bind (group_parent (importGOBJ cfg) ''GameObjects'' obj) (\<lambda>gobjparent.
                adt_rows rec h cfg baseDir wmoparent doodadparent gobjparent rows)))
              else
                bind (wmo_given_parent cfg obj givenParent) (\<lambda>givenParent'.
                wmo_rows rec h cfg baseDir obj givenParent' rows)))
      else ret ())"

text \<open>\<^verbatim>\<open>m.name.lower()\<close> on ASCII, the key of line 367.\<close>

definition py_lower :: "string \<Rightarrow> string" where
  "py_lower s =
     map (\<lambda>c. if CHR ''A'' \<le> c \<and> c \<le> CHR ''Z'' then char_of (of_char c + (32 :: nat)) else c) s"

definition read_obj :: "host \<Rightarrow> string \<Rightarrow> py_error + obj_state" where
  "read_obj h objectFile =
     (case files h objectFile of
        None \<Rightarrow> Inl FileNotFoundError
      | Some ls \<Rightarrow> parse_obj (pyfloat h) ls)"

text \<open>
  The body of \<^verbatim>\<open>importWoWOBJ\<close>, with the nested call as the parameter \<open>rec\<close>. First the
  model itself (\<open>create_model\<close>, lines 193 to 376), then its placements: the OBJ file
  is parsed (line 214 raises when it cannot be opened), then its material library; the
  mesh and the object named like the file are created; the vertex groups are made from
  the groups sorted by lowered name (lines 366 to 369); the object is rotated and linked;
  the placement table is processed; the object is returned. Lines 277 to 282 compute a
  name that is never used.

  Lines 287 to 363 hand the parsed data to the host (materials, vertices, faces and UV
  layers of the new mesh). They read nothing of the scene that the rest of the function
  uses; the mesh datablock of the model stands for their result, and the exceptions the
  host may raise there are not modelled.
\<close>

definition create_model :: "host \<Rightarrow> settings \<Rightarrow> string \<Rightarrow> nat run" where
  "create_model h cfg objectFile =
     (let baseDir = fst (os_path_split objectFile);
          fileName = snd (os_path_split objectFile) in
      bind (py_print (''Parsing OBJ: '' @ fileName)) (\<lambda>_.
      bind (lift (read_obj h objectFile)) (\<lambda>doc.
      bind (lift (load_materials (files h) baseDir (mtlfile doc))) (\<lambda>materials.
      bind (meshes_new \<lparr>document = doc,
              textures = (if importTextures cfg then materials else Map.empty)\<rparr>) (\<lambda>newmesh.
      bind (objects_new (os_path_basename objectFile) (Some newmesh)) (\<lambda>obj.
      bind (if createVertexGroups cfg
            then set_obj obj (\<lambda>b. b\<lparr>vertex_groups :=
                   map (\<lambda>m. (gname m, gverts m)) (sort_key (\<lambda>m. py_lower (gname m)) (meshes doc))\<rparr>)
            else ret ()) (\<lambda>_.
      bind (set_obj obj (\<lambda>b. b\<lparr>rotation_euler := (0, 0, 0)\<rparr>)) (\<lambda>_.
      bind (set_obj obj (\<lambda>b. b\<lparr>rotation_euler := set_x (radians 90) (rotation_euler b)\<rparr>)) (\<lambda>_.
      bind (link obj) (\<lambda>_.
      ret obj))))))))))"

definition import_body ::
  "(string \<Rightarrow> nat option \<Rightarrow> nat run) \<Rightarrow> host \<Rightarrow> settings \<Rightarrow> string \<Rightarrow> nat option \<Rightarrow> nat run" where
  "import_body rec h cfg objectFile givenParent =
     bind (create_model h cfg objectFile) (\<lambda>obj.
     bind (placements rec h cfg objectFile (fst (os_path_split objectFile)) obj givenParent) (\<lambda>_.
     ret obj))"

text \<open>
  \<^verbatim>\<open>importWoWOBJ\<close> run with at most \<open>n\<close> nested calls on the stack. The source bounds the
  nesting by nothing but the interpreter's recursion limit; \<open>OutOfFuel\<close> at every \<open>n\<close>
  means that the call does not return at any limit.
\<close>

primrec importWoWOBJ ::
  "nat \<Rightarrow> host \<Rightarrow> settings \<Rightarrow> string \<Rightarrow> nat option \<Rightarrow> nat run" where
  "importWoWOBJ 0 h cfg objectFile givenParent = (\<lambda>sc. OutOfFuel)"
| "importWoWOBJ (Suc n) h cfg objectFile givenParent =
     import_body (importWoWOBJ n h cfg) h cfg objectFile givenParent"

text \<open>Line 13: the entry point of the add-on.\<close>

definition importWoWOBJAddon :: "nat \<Rightarrow> host \<Rightarrow> string \<Rightarrow> settings \<Rightarrow> nat run" where
  "importWoWOBJAddon n h objectFile cfg = importWoWOBJ n h cfg objectFile None"

subsection \<open>Relations between the scene before and after a run\<close>

text \<open>
  The model ids registered in a scene; \<open>extends sc sc'\<close>: every object of \<open>sc\<close> is
  still there in \<open>sc'\<close> with its name and its mesh, and every id registered in \<open>sc\<close> is
  registered in \<open>sc'\<close>; \<open>preserves R m\<close>: whenever \<open>m\<close> returns or raises, the scenes before
  and after are related by \<open>R\<close>.
\<close>

definition registered :: "scene \<Rightarrow> pyval set" where
  "registered sc = set (case importedModelIDs sc of None \<Rightarrow> [] | Some l \<Rightarrow> l)"

definition extends :: "scene \<Rightarrow> scene \<Rightarrow> bool" where
  "extends sc sc' \<longleftrightarrow>
     length (objects sc) \<le> length (objects sc') \<and>
     map name (take (length (objects sc)) (objects sc')) = map name (objects sc) \<and>
     map data (take (length (objects sc)) (objects sc')) = map data (objects sc) \<and>
     registered sc \<subseteq> registered sc'"

definition preserves :: "(scene \<Rightarrow> scene \<Rightarrow> bool) \<Rightarrow> 'a run \<Rightarrow> bool" where
  "preserves R m \<longleftrightarrow>
     (\<forall>sc. case m sc of OutOfFuel \<Rightarrow> True | Raised e sc' \<Rightarrow> R sc sc' | Done x sc' \<Rightarrow> R sc sc')"

subsection \<open>Example inputs\<close>

text \<open>
  A scene with nothing in it, and a file system for the examples: model files with no
  geometry, placement tables with a \<^verbatim>\<open>Type\<close> column (\<open>scaled\<close>, \<open>dedup\<close>, \<open>broken\<close>) and
  one without (\<open>loop\<close>), whose only row names the file the table belongs to. The file
  \<^verbatim>\<open>missing.obj\<close> does not exist. \<open>example_float\<close> agrees with \<^verbatim>\<open>float\<close> on the numbers the
  tables contain, \<open>flags\<close> sets \<^verbatim>\<open>importWMO\<close>, \<^verbatim>\<open>importM2\<close>, \<^verbatim>\<open>importWMOSets\<close> and
  \<^verbatim>\<open>allowDuplicates\<close>.
\<close>

definition empty_scene :: scene where
  "empty_scene = \<lparr>objects = [], mesh_data = [], collection = [], importedModelIDs = None, stdout = []\<rparr>"

definition example_float :: "string \<Rightarrow> real option" where
  "example_float = map_of [(''0'', 0), (''1'', 1), (''2'', 2)]"

definition adt_header :: string where
  "adt_header = ''ModelFile;PositionX;PositionY;PositionZ;RotationW;RotationX;RotationY;RotationZ;ScaleFactor;ModelId;Type''"

definition set_header :: string where
  "set_header = ''ModelFile;PositionX;PositionY;PositionZ;RotationW;RotationX;RotationY;RotationZ;ScaleFactor''"

definition example_host :: host where
  "example_host = \<lparr>files = map_of
     [(''tree.obj'', []),
      (''house.obj'', []),
      (''scaled.obj'', []),
      (''scaled_ModelPlacementInformation.csv'',
         [adt_header, ''tree.obj;0;0;0;0;0;0;0;2;1;m2'', ''tree.obj;0;0;0;0;0;0;0;;2;m2'']),
      (''dedup.obj'', []),
      (''dedup_ModelPlacementInformation.csv'',
         [adt_header, ''tree.obj;0;0;0;0;0;0;0;1;7;m2'', ''house.obj;0;0;0;0;0;0;0;1;7;wmo'']),
      (''broken.obj'', []),
      (''broken_ModelPlacementInformation.csv'',
         [adt_header, ''missing.obj;0;0;0;0;0;0;0;1;1;m2'', ''tree.obj;0;0;0;0;0;0;0;1;2;m2'']),
      (''loop.obj'', []),
      (''loop_ModelPlacementInformation.csv'',
         [set_header, ''loop.obj;0;0;0;1;0;0;0;1''])],
     pyfloat = example_float,
     to_euler = (\<lambda>q. (0, 0, 0))\<rparr>"

definition adt_fields :: "string list" where
  "adt_fields = [''ModelFile'', ''PositionX'', ''PositionY'', ''PositionZ'', ''RotationW'',
     ''RotationX'', ''RotationY'', ''RotationZ'', ''ScaleFactor'', ''ModelId'', ''Type'']"

definition adt_record :: "string list \<Rightarrow> csv_row" where
  "adt_record cells = dict_row adt_fields cells"

definition set_fields :: "string list" where
  "set_fields = [''ModelFile'', ''PositionX'', ''PositionY'', ''PositionZ'', ''RotationW'',
     ''RotationX'', ''RotationY'', ''RotationZ'', ''ScaleFactor'']"

definition set_record :: "string list \<Rightarrow> csv_row" where
  "set_record cells = dict_row set_fields cells"

definition flags :: "bool \<Rightarrow> bool \<Rightarrow> bool \<Rightarrow> bool \<Rightarrow> settings" where
  "flags wmo m2 sets dup = \<lparr>importTextures = False, createVertexGroups = False, importWMO = wmo,
     importM2 = m2, importWMOSets = sets, importGOBJ = False, allowDuplicates = dup\<rparr>"

subsection \<open>Notions used in the statements\<close>

text \<open>The list of registered ids, and whether a row of a given type is imported under the
  settings (the three tests of lines 444, 475 and 498).\<close>

definition model_ids :: "scene \<Rightarrow> pyval list" where
  "model_ids sc = (case importedModelIDs sc of None \<Rightarrow> [] | Some l \<Rightarrow> l)"

definition category_enabled :: "settings \<Rightarrow> pyval \<Rightarrow> bool" where
  "category_enabled cfg ty \<longleftrightarrow>
     ty = PyStr ''wmo'' \<and> importWMO cfg \<or> ty = PyStr ''m2'' \<and> importM2 cfg \<or>
     ty = PyStr ''gobj'' \<and> importGOBJ cfg"

text \<open>
  Two relations for the copy path of lines 479 to 486 and 499 to 505. A run \<open>edits_only i\<close>
  when it keeps the number of objects, every object before \<open>i\<close>, and the mesh of object \<open>i\<close>
  (it may change the other fields of object \<open>i\<close>). \<open>shares_named nm i sc\<close> says that object
  \<open>i\<close> has the mesh of the object that \<^verbatim>\<open>bpy.data.objects[nm]\<close> finds.
\<close>

definition edits_only :: "nat \<Rightarrow> scene \<Rightarrow> scene \<Rightarrow> bool" where
  "edits_only i sc sc' \<longleftrightarrow>
     length (objects sc') = length (objects sc) \<and>
     take i (objects sc') = take i (objects sc) \<and>
     data (objects sc' ! i) = data (objects sc ! i)"

definition shares_named :: "string \<Rightarrow> nat \<Rightarrow> scene \<Rightarrow> bool" where
  "shares_named nm i sc \<longleftrightarrow>
     (case index_of nm (objects sc) of
        None \<Rightarrow> False
      | Some k \<Rightarrow> i < length (objects sc) \<and> data (objects sc ! i) = data (objects sc ! k))"

(*DEFS-END*)

section \<open>Properties of the parsers\<close>

lemma those_map_Some [simp]: "those (map Some xs) = Some xs"
  by (induction xs) auto

lemma length_py_upd [simp]: "length (py_upd xs i v) = length xs"
  by (simp add: py_upd_def)

lemma py_nth_last:
  "xs \<noteq> [] \<Longrightarrow> py_nth xs (int (length xs) - 1) = Some (last xs)"
  by (simp add: py_nth_def last_conv_nth nat_diff_distrib')

lemma py_upd_last:
  "xs \<noteq> [] \<Longrightarrow> py_upd xs (int (length xs) - 1) v = butlast xs @ [v]"
  apply (simp add: py_upd_def)
  by (metis (no_types) append_butlast_last_id length_butlast list_update_length nat_minus_as_int nat_int of_nat_1 of_nat_diff)

lemma obj_lines_append:
  "obj_lines pf (xs @ ys) st =
     (case obj_lines pf xs st of Inl e \<Rightarrow> Inl e | Inr st' \<Rightarrow> obj_lines pf ys st')"
  by (induction xs arbitrary: st) (auto split: sum.splits)

text \<open>\<^verbatim>\<open>meshIndex\<close> is always the index of the last group.\<close>

lemma obj_line_meshIndex:
  assumes "obj_line pf l st = Inr st'" and "meshIndex st = int (length (meshes st)) - 1"
  shows "meshIndex st' = int (length (meshes st')) - 1"
  using assms
  by (auto simp: obj_line_def vt_line_def f_line_def g_line_def usemtl_line_def Let_def
      split: list.splits if_splits sum.splits option.splits)

lemma obj_lines_meshIndex:
  "obj_lines pf ls st = Inr st' \<Longrightarrow> meshIndex st = int (length (meshes st)) - 1 \<Longrightarrow>
   meshIndex st' = int (length (meshes st')) - 1"
proof (induction ls arbitrary: st)
  case Nil
  then show ?case by simp
next
  case (Cons l ls)
  then show ?case
    by (auto split: sum.splits dest: obj_line_meshIndex)
qed

lemma parse_obj_meshIndex:
  "parse_obj pf ls = Inr st \<Longrightarrow> meshIndex st = int (length (meshes st)) - 1"
  unfolding parse_obj_def by (erule obj_lines_meshIndex) (simp add: obj_init_def)

subsection \<open>Face lines\<close>

text \<open>
  Claim C10. A face line that follows a parsed prefix with an active group, and whose
  corners start with the integers \<open>a\<close>, \<open>b\<close>, \<open>c\<close>, \<open>rest\<close>, is parsed successfully: the
  active (last) group records the face \<open>(a, b, c)\<close>, the triple of the first three
  1-based indices, and its vertex set receives every index of the line minus one, those
  of \<open>rest\<close> included, although they are part of no recorded face.
\<close>

theorem face_line_first_three_and_all_vertices:
  assumes pre: "parse_obj pf pre = Inr st"
    and grp: "meshes st \<noteq> []"
    and tok: "split_ws bytes_space line = ''f'' # args"
    and ints: "map (\<lambda>v. py_int (takeWhile (\<lambda>c. c \<noteq> CHR ''/'') v)) args
                 = map Some (a # b # c # rest)"
  shows "\<exists>st'. parse_obj pf (pre @ [line]) = Inr st' \<and>
           meshes st' = butlast (meshes st) @
             [(last (meshes st))\<lparr>faces := faces (last (meshes st)) @ [(a, b, c)],
                gverts := gverts (last (meshes st)) \<union> (\<lambda>i. i - 1) ` set (a # b # c # rest)\<rparr>] \<and>
           (\<lambda>i. i - 1) ` set rest \<subseteq> gverts (last (meshes st')) \<and>
           faces (last (meshes st')) = faces (last (meshes st)) @ [(a, b, c)]"
proof -
  have idx: "meshIndex st = int (length (meshes st)) - 1"
    using pre by (rule parse_obj_meshIndex)
  have th: "those (map (\<lambda>v. py_int (takeWhile (\<lambda>c. c \<noteq> CHR ''/'') v)) args)
      = Some (a # b # c # rest)"
    unfolding ints by simp
  have "obj_line pf line st = f_line args st"
    by (simp add: obj_line_def tok)
  also have "\<dots> = Inr (st\<lparr>meshes := butlast (meshes st) @
             [(last (meshes st))\<lparr>faces := faces (last (meshes st)) @ [(a, b, c)],
                gverts := gverts (last (meshes st)) \<union> (\<lambda>i. i - 1) ` set (a # b # c # rest)\<rparr>]\<rparr>)"
    unfolding f_line_def th idx using grp
    by (simp add: py_nth_last py_upd_last del: those.simps)
  finally have "parse_obj pf (pre @ [line]) = Inr (st\<lparr>meshes := butlast (meshes st) @
             [(last (meshes st))\<lparr>faces := faces (last (meshes st)) @ [(a, b, c)],
                gverts := gverts (last (meshes st)) \<union> (\<lambda>i. i - 1) ` set (a # b # c # rest)\<rparr>]\<rparr>)"
    using pre by (simp add: parse_obj_def obj_lines_append)
  then show ?thesis by auto
qed

text \<open>The document \<^verbatim>\<open>g grp\<close>, \<^verbatim>\<open>f 1/1 2/2 3/3 4/4\<close>: the group's only face is \<open>(1, 2, 3)\<close>,
  and the 0-based vertex 3 of the fourth corner is in its vertex set, in no face.\<close>

theorem face_line_witness:
  "\<exists>st'. parse_obj (\<lambda>s. None) [''g grp'', ''f 1/1 2/2 3/3 4/4''] = Inr st' \<and>
     faces (last (meshes st')) = [(1, 2, 3)] \<and> 3 \<in> gverts (last (meshes st'))"
proof -
  let ?st = "\<lparr>mtlfile = '''', verts = [], normals = [], uvs = [],
              meshes = [\<lparr>usemtl = '''', gname = ''grp'', gverts = {}, faces = []\<rparr>], meshIndex = 0\<rparr>"
  have pre: "parse_obj (\<lambda>s. None) [''g grp''] = Inr ?st"
    by (simp add: parse_obj_def obj_init_def obj_line_def split_ws_def bytes_space_def
        g_line_def new_OBJMesh_def)
  have grp: "meshes ?st \<noteq> []" by simp
  have tok: "split_ws bytes_space ''f 1/1 2/2 3/3 4/4'' = ''f'' # [''1/1'', ''2/2'', ''3/3'', ''4/4'']"
    by (simp add: split_ws_def bytes_space_def)
  have ints: "map (\<lambda>v. py_int (takeWhile (\<lambda>c. c \<noteq> CHR ''/'') v)) [''1/1'', ''2/2'', ''3/3'', ''4/4'']
      = map Some (1 # 2 # 3 # [4])"
    by (simp add: py_int_def digit_val_def)
  show ?thesis
    using face_line_first_three_and_all_vertices [OF pre grp tok ints] by auto
qed

subsection \<open>UV channels\<close>

text \<open>
  Claim C9 asks that a \<^verbatim>\<open>vt\<close> line with suffix \<open>N\<close> lands in channel \<open>N - 1\<close> whenever
  higher channels appear, gaps included. The source appends one empty channel at most
  (line 234), so a document whose first \<^verbatim>\<open>vt\<close> line is a \<^verbatim>\<open>vt2\<close> line reaches
  \<^verbatim>\<open>uvs[1]\<close> on a list of length one: the parser raises IndexError, whatever the floats.
\<close>

theorem vt_gap_raises_IndexError: "parse_obj pf [''vt2 0.5 0.5''] = Inl IndexError"
  by (simp add: parse_obj_def obj_init_def obj_line_def split_ws_def bytes_space_def
      vt_line_def py_int_def digit_val_def py_nth_def)

section \<open>Runs of the importer\<close>

text \<open>Running a step from a scene.\<close>

lemma run_simps:
  "ret x sc = Done x sc"
  "raise e sc = Raised e sc"
  "bind m f sc = (case m sc of OutOfFuel \<Rightarrow> OutOfFuel | Raised e sc' \<Rightarrow> Raised e sc' | Done x sc' \<Rightarrow> f x sc')"
  "lift (Inl e) sc = Raised e sc"
  "lift (Inr x) sc = Done x sc"
  "modify g sc = Done () (g sc)"
  "gets g' sc = Done (g' sc) sc"
  by (simp_all add: ret_def raise_def bind_def lift_def modify_def gets_def)

lemmas prim_defs = py_print_def
  objects_new_def object_copy_def set_obj_def rename_def link_def meshes_new_def mesh_copy_def
  objects_get_def



lemma preservesI:
  "(\<And>sc e sc'. m sc = Raised e sc' \<Longrightarrow> R sc sc') \<Longrightarrow>
   (\<And>sc x sc'. m sc = Done x sc' \<Longrightarrow> R sc sc') \<Longrightarrow> preserves R m"
  by (auto simp: preserves_def split: outcome.splits)

lemma preserves_OutOfFuel: "preserves R (\<lambda>sc. OutOfFuel)"
  by (simp add: preserves_def)

lemma preservesD:
  "preserves R m \<Longrightarrow> m sc = Done x sc' \<Longrightarrow> R sc sc'"
  "preserves R m \<Longrightarrow> m sc = Raised e sc' \<Longrightarrow> R sc sc'"
  by (auto simp: preserves_def split: outcome.splits dest: spec [of _ sc])

lemma preserves_ret: "reflp R \<Longrightarrow> preserves R (ret x)"
  by (auto intro!: preservesI simp: run_simps elim: reflpE)

lemma preserves_raise: "reflp R \<Longrightarrow> preserves R (raise e)"
  by (auto intro!: preservesI simp: run_simps elim: reflpE)

lemma preserves_lift: "reflp R \<Longrightarrow> preserves R (lift r)"
  by (cases r) (auto intro!: preservesI simp: run_simps elim: reflpE)

lemma preserves_gets: "reflp R \<Longrightarrow> preserves R (gets g)"
  by (auto intro!: preservesI simp: run_simps elim: reflpE)

lemma preserves_bind:
  assumes "transp R" and "preserves R m" and "\<And>x. preserves R (f x)"
  shows "preserves R (bind m f)"
proof (rule preservesI)
  fix sc e sc' assume "bind m f sc = Raised e sc'"
  then show "R sc sc'"
    using assms by (auto simp: run_simps split: outcome.splits dest: preservesD transpD)
next
  fix sc x sc' assume "bind m f sc = Done x sc'"
  then show "R sc sc'"
    using assms by (auto simp: run_simps split: outcome.splits dest: preservesD transpD)
qed

lemma preserves_if:
  "preserves R a \<Longrightarrow> preserves R b \<Longrightarrow> preserves R (if c then a else b)"
  by simp

lemma registered_simps [simp]:
  "registered (sc\<lparr>objects := ob\<rparr>) = registered sc"
  "registered (sc\<lparr>mesh_data := md\<rparr>) = registered sc"
  "registered (sc\<lparr>collection := co\<rparr>) = registered sc"
  "registered (sc\<lparr>stdout := out\<rparr>) = registered sc"
  "registered (sc\<lparr>importedModelIDs := Some l\<rparr>) = set l"
  by (simp_all add: registered_def)

lemma extends_nth:
  "extends sc sc' \<longleftrightarrow>
     length (objects sc) \<le> length (objects sc') \<and>
     (\<forall>i<length (objects sc). name (objects sc' ! i) = name (objects sc ! i) \<and>
        data (objects sc' ! i) = data (objects sc ! i)) \<and>
     registered sc \<subseteq> registered sc'"
  by (auto simp: extends_def list_eq_iff_nth_eq)

lemma reflp_extends: "reflp extends"
  by (simp add: reflp_def extends_def)

lemma transp_extends: "transp extends"
  by (auto simp: transp_def extends_nth)

lemma extends_refl [simp]: "extends sc sc"
  by (simp add: extends_def)

lemma extends_stdout [simp]: "extends sc (sc\<lparr>stdout := out\<rparr>)"
  by (simp add: extends_def)

lemma extends_trans: "extends a b \<Longrightarrow> extends b c \<Longrightarrow> extends a c"
  using transp_extends by (rule transpD)

text \<open>The primitive steps.\<close>

lemma extends_prims:
  "preserves extends (py_print s)"
  "preserves extends (objects_new nm d)"
  "preserves extends (object_copy i)"
  "preserves extends (link i)"
  "preserves extends (meshes_new m)"
  "preserves extends (mesh_copy k)"
  "preserves extends (objects_get nm)"
  by (auto intro!: preservesI simp: run_simps prim_defs extends_def split: option.splits)

lemma extends_set_obj:
  assumes "\<And>b. name (f b) = name b" "\<And>b. data (f b) = data b"
  shows "preserves extends (set_obj i f)"
proof -
  have "map name (xs[i := f (xs ! i)]) = map name xs"
       "map data (xs[i := f (xs ! i)]) = map data xs" for xs
    using assms by (metis list_update_id map_update)+
  then show ?thesis
    by (auto intro!: preservesI simp: run_simps prim_defs extends_def take_map [symmetric])
qed

lemma extends_ret: "preserves extends (ret x)"
  by (rule preserves_ret [OF reflp_extends])

lemma extends_raise: "preserves extends (raise e)"
  by (rule preserves_raise [OF reflp_extends])

lemma extends_lift: "preserves extends (lift r)"
  by (rule preserves_lift [OF reflp_extends])

lemma extends_gets: "preserves extends (gets g)"
  by (rule preserves_gets [OF reflp_extends])

lemma extends_bind:
  "preserves extends m \<Longrightarrow> (\<And>x. preserves extends (f x)) \<Longrightarrow> preserves extends (bind m f)"
  by (rule preserves_bind [OF transp_extends])

lemma preserves_case_option:
  "preserves R a \<Longrightarrow> (\<And>x. preserves R (b x)) \<Longrightarrow>
   preserves R (case v of None \<Rightarrow> a | Some x \<Rightarrow> b x)"
  by (cases v) simp_all

lemmas extends_intros =
  extends_bind extends_ret extends_raise extends_lift extends_gets extends_prims
  extends_set_obj preserves_if preserves_case_option

text \<open>The two composite steps that name or re-mesh an object touch only the object they
  have just created.\<close>

lemma extends_new_group: "preserves extends (new_group nm nm' obj)"
  by (auto intro!: preservesI
      simp: run_simps new_group_def prim_defs extends_def nth_append take_map [symmetric]
      split: outcome.splits)

lemma extends_copy_with_mesh: "preserves extends (copy_with_mesh nm)"
  by (auto intro!: preservesI
      simp: run_simps copy_with_mesh_def prim_defs extends_def
      split: outcome.splits option.splits)

lemma extends_apply_scale: "preserves extends (apply_scale h row ob)"
  unfolding apply_scale_def by (rule extends_intros | simp)+

lemma extends_adt_rotation: "preserves extends (adt_rotation h row ob)"
  unfolding adt_rotation_def by (rule extends_intros | simp)+

lemma extends_copy_existing: "preserves extends (copy_existing nm reset)"
  unfolding copy_existing_def by (rule extends_intros | simp)+

lemmas extends_steps = extends_intros extends_new_group extends_copy_with_mesh
  extends_apply_scale extends_adt_rotation extends_copy_existing

lemma extends_places:
  "preserves extends (wmo_parent h wp row mf)"
  "preserves extends (m2_place h dp row i)"
  "preserves extends (gobj_place h gp row i)"
  "preserves extends (wmo_set_place h obj g row i)"
  unfolding wmo_parent_def m2_place_def gobj_place_def wmo_set_place_def
  by (rule extends_steps | simp)+

lemma extends_obtain_model:
  "(\<And>p g. preserves extends (rec p g)) \<Longrightarrow> preserves extends (obtain_model rec baseDir mf reset)"
  unfolding obtain_model_def by (rule extends_steps | simp)+

lemmas extends_rows = extends_steps extends_places extends_obtain_model

lemma extends_adt_wmo:
  "(\<And>p g. preserves extends (rec p g)) \<Longrightarrow> preserves extends (adt_wmo rec h baseDir wp row)"
  unfolding adt_wmo_def by (rule extends_rows | simp)+

lemma extends_adt_m2:
  "(\<And>p g. preserves extends (rec p g)) \<Longrightarrow> preserves extends (adt_m2 rec h baseDir dp row)"
  unfolding adt_m2_def by (rule extends_rows | simp)+

lemma extends_adt_gobj:
  "(\<And>p g. preserves extends (rec p g)) \<Longrightarrow> preserves extends (adt_gobj rec h baseDir gp row)"
  unfolding adt_gobj_def by (rule extends_rows | simp)+

lemma extends_wmo_row:
  "(\<And>p g. preserves extends (rec p g)) \<Longrightarrow> preserves extends (wmo_row rec h baseDir obj gp row)"
  unfolding wmo_row_def by (rule extends_rows | simp)+

lemma extends_adt_dispatch:
  "(\<And>p g. preserves extends (rec p g)) \<Longrightarrow>
   preserves extends (adt_dispatch rec h cfg baseDir wp dp gp row)"
  unfolding adt_dispatch_def
  by (rule extends_rows extends_adt_wmo extends_adt_m2 extends_adt_gobj | simp)+

text \<open>Line 515 stores the list read at the start of the row, with the row's id appended:
  whatever a nested import stored in between is overwritten, but nothing that was
  registered when the row started is lost.\<close>

lemma extends_registry_write:
  "extends sc sc1 \<Longrightarrow> registered sc \<subseteq> set l \<Longrightarrow> extends sc (sc1\<lparr>importedModelIDs := Some l\<rparr>)"
  by (simp add: extends_def)

lemma extends_adt_row:
  assumes rec: "\<And>p g. preserves extends (rec p g)"
  shows "preserves extends (adt_row rec h cfg baseDir wp dp gp row)"
proof -
  note d = preservesD [OF extends_adt_dispatch [OF rec]]
  have reg: "registered sc = set (case importedModelIDs sc of None \<Rightarrow> [] | Some l \<Rightarrow> l)" for sc
    by (simp add: registered_def)
  show ?thesis
    by (rule preservesI)
       (auto simp: run_simps adt_row_def Let_def py_print_def lift_def reg
          split: if_splits outcome.splits sum.splits pyval.splits
          dest!: d intro!: extends_registry_write)
qed

lemma extends_adt_rows:
  assumes rec: "\<And>p g. preserves extends (rec p g)"
  shows "preserves extends (adt_rows rec h cfg baseDir wp dp gp rows)"
  by (induction rows) (auto intro!: extends_bind extends_ret extends_adt_row rec)

lemma extends_wmo_rows:
  assumes rec: "\<And>p g. preserves extends (rec p g)"
  shows "preserves extends (wmo_rows rec h cfg baseDir obj gp rows)"
  by (induction rows) (auto intro!: extends_bind extends_ret extends_wmo_row rec)

lemma extends_group_parent: "preserves extends (group_parent enabled nm obj)"
  unfolding group_parent_def by (rule extends_rows | simp)+

lemma extends_wmo_given_parent: "preserves extends (wmo_given_parent cfg obj g)"
  unfolding wmo_given_parent_def by (rule extends_rows | simp)+

lemma extends_placements:
  assumes rec: "\<And>p g. preserves extends (rec p g)"
  shows "preserves extends (placements rec h cfg objectFile baseDir obj g)"
  unfolding placements_def Let_def
  by (auto split: option.splits list.splits
      intro!: extends_bind extends_ret extends_raise extends_group_parent
        extends_wmo_given_parent extends_adt_rows extends_wmo_rows rec)

lemma extends_create_model: "preserves extends (create_model h cfg objectFile)"
  unfolding create_model_def Let_def by (rule extends_rows | simp)+

lemma extends_import_body:
  assumes rec: "\<And>p g. preserves extends (rec p g)"
  shows "preserves extends (import_body rec h cfg objectFile g)"
  unfolding import_body_def
  by (intro extends_bind extends_ret extends_create_model extends_placements rec)

lemma extends_importWoWOBJ: "preserves extends (importWoWOBJ n h cfg objectFile g)"
proof (induction n arbitrary: objectFile g)
  case 0
  show ?case by (simp add: preserves_OutOfFuel)
next
  case (Suc n)
  show ?case by (simp add: extends_import_body Suc)
qed

section \<open>The examples, evaluated\<close>

lemma flags_simps:
  "importTextures (flags w m s d) = False" "createVertexGroups (flags w m s d) = False"
  "importWMO (flags w m s d) = w" "importM2 (flags w m s d) = m" "importWMOSets (flags w m s d) = s"
  "importGOBJ (flags w m s d) = False" "allowDuplicates (flags w m s d) = d"
  by (simp_all add: flags_def)

lemma csv_headers:
  "csv_cells adt_header = adt_fields" "csv_cells set_header = set_fields"
  by (simp_all add: adt_header_def set_header_def adt_fields_def set_fields_def csv_cells_def)

lemma type_column: "''Type'' \<in> set adt_fields" "''Type'' \<notin> set set_fields"
  by (simp_all add: adt_fields_def set_fields_def)

lemma adt_record_fields:
  "adt_record [mf, px, py, pz, rw, rx, ry, rz, sf, mid, ty] ''ModelFile'' = Some (PyStr mf)"
  "adt_record [mf, px, py, pz, rw, rx, ry, rz, sf, mid, ty] ''PositionX'' = Some (PyStr px)"
  "adt_record [mf, px, py, pz, rw, rx, ry, rz, sf, mid, ty] ''PositionY'' = Some (PyStr py)"
  "adt_record [mf, px, py, pz, rw, rx, ry, rz, sf, mid, ty] ''PositionZ'' = Some (PyStr pz)"
  "adt_record [mf, px, py, pz, rw, rx, ry, rz, sf, mid, ty] ''RotationW'' = Some (PyStr rw)"
  "adt_record [mf, px, py, pz, rw, rx, ry, rz, sf, mid, ty] ''RotationX'' = Some (PyStr rx)"
  "adt_record [mf, px, py, pz, rw, rx, ry, rz, sf, mid, ty] ''RotationY'' = Some (PyStr ry)"
  "adt_record [mf, px, py, pz, rw, rx, ry, rz, sf, mid, ty] ''RotationZ'' = Some (PyStr rz)"
  "adt_record [mf, px, py, pz, rw, rx, ry, rz, sf, mid, ty] ''ScaleFactor'' = Some (PyStr sf)"
  "adt_record [mf, px, py, pz, rw, rx, ry, rz, sf, mid, ty] ''ModelId'' = Some (PyStr mid)"
  "adt_record [mf, px, py, pz, rw, rx, ry, rz, sf, mid, ty] ''Type'' = Some (PyStr ty)"
  by (simp_all add: adt_record_def adt_fields_def dict_row_def)

lemma set_record_fields:
  "set_record [mf, px, py, pz, rw, rx, ry, rz, sf] ''ModelFile'' = Some (PyStr mf)"
  "set_record [mf, px, py, pz, rw, rx, ry, rz, sf] ''PositionX'' = Some (PyStr px)"
  "set_record [mf, px, py, pz, rw, rx, ry, rz, sf] ''PositionY'' = Some (PyStr py)"
  "set_record [mf, px, py, pz, rw, rx, ry, rz, sf] ''PositionZ'' = Some (PyStr pz)"
  "set_record [mf, px, py, pz, rw, rx, ry, rz, sf] ''RotationW'' = Some (PyStr rw)"
  "set_record [mf, px, py, pz, rw, rx, ry, rz, sf] ''RotationX'' = Some (PyStr rx)"
  "set_record [mf, px, py, pz, rw, rx, ry, rz, sf] ''RotationY'' = Some (PyStr ry)"
  "set_record [mf, px, py, pz, rw, rx, ry, rz, sf] ''RotationZ'' = Some (PyStr rz)"
  "set_record [mf, px, py, pz, rw, rx, ry, rz, sf] ''ScaleFactor'' = Some (PyStr sf)"
  by (simp_all add: set_record_def set_fields_def dict_row_def)

lemma example_rows:
  "reader_rows adt_fields [''tree.obj;0;0;0;0;0;0;0;2;1;m2'', ''tree.obj;0;0;0;0;0;0;0;;2;m2''] =
     [adt_record [''tree.obj'', ''0'', ''0'', ''0'', ''0'', ''0'', ''0'', ''0'', ''2'', ''1'', ''m2''],
      adt_record [''tree.obj'', ''0'', ''0'', ''0'', ''0'', ''0'', ''0'', ''0'', '''', ''2'', ''m2'']]"
  "reader_rows adt_fields [''tree.obj;0;0;0;0;0;0;0;1;7;m2'', ''house.obj;0;0;0;0;0;0;0;1;7;wmo''] =
     [adt_record [''tree.obj'', ''0'', ''0'', ''0'', ''0'', ''0'', ''0'', ''0'', ''1'', ''7'', ''m2''],
      adt_record [''house.obj'', ''0'', ''0'', ''0'', ''0'', ''0'', ''0'', ''0'', ''1'', ''7'', ''wmo'']]"
  "reader_rows adt_fields [''missing.obj;0;0;0;0;0;0;0;1;1;m2'', ''tree.obj;0;0;0;0;0;0;0;1;2;m2''] =
     [adt_record [''missing.obj'', ''0'', ''0'', ''0'', ''0'', ''0'', ''0'', ''0'', ''1'', ''1'', ''m2''],
      adt_record [''tree.obj'', ''0'', ''0'', ''0'', ''0'', ''0'', ''0'', ''0'', ''1'', ''2'', ''m2'']]"
  "reader_rows set_fields [''loop.obj;0;0;0;1;0;0;0;1''] =
     [set_record [''loop.obj'', ''0'', ''0'', ''0'', ''1'', ''0'', ''0'', ''0'', ''1'']]"
  by (simp_all add: reader_rows_def csv_cells_def adt_record_def set_record_def)

lemma example_files:
  "files example_host ''tree.obj'' = Some []"
  "files example_host ''house.obj'' = Some []"
  "files example_host ''scaled.obj'' = Some []"
  "files example_host ''dedup.obj'' = Some []"
  "files example_host ''broken.obj'' = Some []"
  "files example_host ''loop.obj'' = Some []"
  "files example_host ''missing.obj'' = None"
  "files example_host ''tree_ModelPlacementInformation.csv'' = None"
  "files example_host ''house_ModelPlacementInformation.csv'' = None"
  "files example_host ''scaled_ModelPlacementInformation.csv'' =
     Some [adt_header, ''tree.obj;0;0;0;0;0;0;0;2;1;m2'', ''tree.obj;0;0;0;0;0;0;0;;2;m2'']"
  "files example_host ''dedup_ModelPlacementInformation.csv'' =
     Some [adt_header, ''tree.obj;0;0;0;0;0;0;0;1;7;m2'', ''house.obj;0;0;0;0;0;0;0;1;7;wmo'']"
  "files example_host ''broken_ModelPlacementInformation.csv'' =
     Some [adt_header, ''missing.obj;0;0;0;0;0;0;0;1;1;m2'', ''tree.obj;0;0;0;0;0;0;0;1;2;m2'']"
  "files example_host ''loop_ModelPlacementInformation.csv'' =
     Some [set_header, ''loop.obj;0;0;0;1;0;0;0;1'']"
  "pyfloat example_host = example_float"
  "to_euler example_host = (\<lambda>q. (0, 0, 0))"
  by (simp_all add: example_host_def)

lemma example_floats:
  "example_float ''0'' = Some 0" "example_float ''1'' = Some 1" "example_float ''2'' = Some 2"
  "example_float [] = None"
  by (simp_all add: example_float_def)

lemma example_paths:
  "csv_path ''tree.obj'' = ''tree_ModelPlacementInformation.csv''"
  "csv_path ''house.obj'' = ''house_ModelPlacementInformation.csv''"
  "csv_path ''scaled.obj'' = ''scaled_ModelPlacementInformation.csv''"
  "csv_path ''dedup.obj'' = ''dedup_ModelPlacementInformation.csv''"
  "csv_path ''broken.obj'' = ''broken_ModelPlacementInformation.csv''"
  "csv_path ''loop.obj'' = ''loop_ModelPlacementInformation.csv''"
  by (simp_all add: csv_path_def)

lemma plain_name_paths:
  assumes "CHR ''/'' \<notin> set p"
  shows "os_path_split p = ([], p)" "os_path_basename p = p" "os_path_join [] p = p"
proof -
  have tw: "takeWhile (\<lambda>c. c \<noteq> CHR ''/'') (rev p) = rev p"
    using assms by (auto simp: takeWhile_eq_all_conv)
  show "os_path_basename p = p" by (simp add: os_path_basename_def tw)
  then show "os_path_split p = ([], p)" by (simp add: os_path_split_def)
  show "os_path_join [] p = p"
    using assms by (cases p) (auto simp: os_path_join_def)
qed

lemmas example_names =
  plain_name_paths [of "''tree.obj''", simplified]
  plain_name_paths [of "''house.obj''", simplified]
  plain_name_paths [of "''scaled.obj''", simplified]
  plain_name_paths [of "''dedup.obj''", simplified]
  plain_name_paths [of "''broken.obj''", simplified]
  plain_name_paths [of "''loop.obj''", simplified]
  plain_name_paths [of "''missing.obj''", simplified]

lemmas eval_defs =
  run_simps prim_defs in_objects_def unique_name_def rjust3_def py_str_nat.simps
  row_get_def row_str_def row_float_def apply_scale_def adt_rotation_def
  copy_existing_def obtain_model_def copy_with_mesh_def wmo_parent_def m2_place_def gobj_place_def
  wmo_set_place_def adt_wmo_def adt_m2_def adt_gobj_def adt_dispatch_def adt_row_def wmo_row_def
  new_group_def group_parent_def wmo_given_parent_def placements_def read_obj_def create_model_def
  import_body_def importWoWOBJAddon_def os_path_exists_def set_x_def set_y_def set_z_def
  Let_def parse_obj_def obj_init_def load_materials_def eval_nat_numeral

lemmas example_facts =
  flags_simps csv_headers type_column adt_record_fields set_record_fields example_rows
  example_files example_floats example_paths example_names empty_scene_def

section \<open>Placement tables\<close>

lemma registered_model_ids: "registered sc = set (model_ids sc)"
  by (simp add: registered_def model_ids_def)

subsection \<open>The dedup gate\<close>

lemma adt_dispatch_disabled:
  "row_get row ''Type'' = Inr ty \<Longrightarrow> \<not> category_enabled cfg ty \<Longrightarrow>
   adt_dispatch rec h cfg baseDir wp dp gp row sc = Done None sc"
  by (auto simp: adt_dispatch_def category_enabled_def run_simps)

lemma adt_dispatch_enabled:
  "row_get row ''Type'' = Inr ty \<Longrightarrow> category_enabled cfg ty \<Longrightarrow>
   adt_dispatch rec h cfg baseDir wp dp gp row sc = Done v sc' \<Longrightarrow> v \<noteq> None"
  by (auto simp: adt_dispatch_def category_enabled_def run_simps split: if_splits outcome.splits)

lemma adt_row_skip:
  assumes "row_get row ''ModelId'' = Inr (PyStr mid)" "PyStr mid \<in> registered sc"
    "\<not> allowDuplicates cfg"
  shows "adt_row rec h cfg baseDir wp dp gp row sc =
         Done None (sc\<lparr>stdout := stdout sc @ [''Skipping already imported model '' @ mid]\<rparr>)"
  using assms by (simp add: adt_row_def run_simps py_print_def registered_def Let_def)

lemma adt_row_dispatch:
  assumes "row_get row ''ModelId'' = Inr mid" "mid \<notin> registered sc \<or> allowDuplicates cfg"
  shows "adt_row rec h cfg baseDir wp dp gp row sc =
         (case adt_dispatch rec h cfg baseDir wp dp gp row sc of
            OutOfFuel \<Rightarrow> OutOfFuel
          | Raised e sc' \<Rightarrow> Raised e sc'
          | Done i sc' \<Rightarrow>
              Done i (sc'\<lparr>importedModelIDs :=
                Some (if mid \<in> registered sc then model_ids sc else model_ids sc @ [mid])\<rparr>))"
  using assms
  by (auto simp: adt_row_def run_simps registered_def model_ids_def Let_def split: outcome.splits)

lemma adt_row_registers:
  assumes "adt_row rec h cfg baseDir wp dp gp row sc = Done i sc'"
    and "row_get row ''ModelId'' = Inr mid"
  shows "mid \<in> registered sc'"
  using assms
  by (auto simp: adt_row_def run_simps registered_def Let_def py_print_def lift_def
      split: outcome.splits if_splits option.splits pyval.splits)




subsection \<open>The registry across rows and imports\<close>



text \<open>
  Claim C2 says that the registry starts empty at every top-level import and that nothing
  written to it is seen by a later import. The source keeps the registry in the scene
  (\<^verbatim>\<open>bpy.context.scene['importedModelIDs']\<close>, lines 432 to 435 and 515) and never resets
  it. As amended: the registry is a property of the scene, not of one import call; every
  id registered when a top-level import starts is still registered when it returns or
  raises, and a row whose id the scene already holds when the row is read is skipped
  (duplicates not allowed), also in the first table of a new import.
\<close>

theorem registry_outlives_import:
  "(\<forall>i sc'. importWoWOBJAddon n h objectFile cfg sc = Done i sc' \<longrightarrow> registered sc \<subseteq> registered sc') \<and>
   (\<forall>e sc'. importWoWOBJAddon n h objectFile cfg sc = Raised e sc' \<longrightarrow> registered sc \<subseteq> registered sc') \<and>
   (\<forall>row mid. row_get row ''ModelId'' = Inr (PyStr mid) \<and> PyStr mid \<in> registered sc \<and>
        \<not> allowDuplicates cfg \<longrightarrow>
      adt_row rec h cfg baseDir wp dp gp row sc =
        Done None (sc\<lparr>stdout := stdout sc @ [''Skipping already imported model '' @ mid]\<rparr>))"
  using preservesD [OF extends_importWoWOBJ, of n h cfg objectFile None sc]
  by (auto simp: importWoWOBJAddon_def extends_def adt_row_skip)

text \<open>The table \<open>scaled\<close> imported into a scene whose registry holds the id 1 already:
  the row with id 1 is skipped, and 1 stays registered.\<close>

theorem registry_outlives_import_witness:
  "\<exists>i sc'.
     importWoWOBJAddon 2 example_host ''scaled.obj'' (flags False True False False)
       (empty_scene\<lparr>importedModelIDs := Some [PyStr ''1'']\<rparr>) = Done i sc' \<and>
     PyStr ''1'' \<in> registered sc' \<and>
     stdout sc' = [''Parsing OBJ: scaled.obj'', ''Skipping already imported model 1'',
       ''ADT M2 import: tree.obj'', ''Parsing OBJ: tree.obj'']"
proof -
  let ?sc = "empty_scene\<lparr>importedModelIDs := Some [PyStr ''1'']\<rparr>"
  let ?cfg = "flags False True False False"
  obtain i sc' where run: "importWoWOBJAddon 2 example_host ''scaled.obj'' ?cfg ?sc = Done i sc'"
    and out: "stdout sc' = [''Parsing OBJ: scaled.obj'', ''Skipping already imported model 1'',
       ''ADT M2 import: tree.obj'', ''Parsing OBJ: tree.obj'']"
    by (simp add: eval_defs example_facts)
  have "PyStr ''1'' \<in> registered ?sc"
    by (simp add: registered_def)
  with registry_outlives_import [of 2 example_host "''scaled.obj''" ?cfg ?sc] run
  have "PyStr ''1'' \<in> registered sc'" by blast
  with run out show ?thesis by blast
qed

text \<open>
  Counterexample to C2 as stated: the table \<open>scaled\<close> is imported twice, by two top-level
  calls, the second one from the scene the first one left. After the first call the
  registry holds the ids 1 and 2; the second call finds them and skips both rows.
\<close>

theorem registry_seen_by_second_import:
  "(case importWoWOBJAddon 2 example_host ''scaled.obj'' (flags False True False False) empty_scene of
      Done i sc1 \<Rightarrow>
        (case importWoWOBJAddon 2 example_host ''scaled.obj'' (flags False True False False) sc1 of
           Done j sc2 \<Rightarrow> Some (importedModelIDs sc1, drop (length (stdout sc1)) (stdout sc2))
         | _ \<Rightarrow> None)
    | _ \<Rightarrow> None)
   = Some (Some [PyStr ''1'', PyStr ''2''],
       [''Parsing OBJ: scaled.obj'', ''Skipping already imported model 1'',
        ''Skipping already imported model 2''])"
  by (simp add: eval_defs example_facts)

subsection \<open>Files that cannot be opened\<close>

lemma import_missing_file:
  assumes "files h p = None"
  shows "importWoWOBJ (Suc n) h cfg p g sc =
         Raised FileNotFoundError (sc\<lparr>stdout := stdout sc @ [''Parsing OBJ: '' @ snd (os_path_split p)]\<rparr>)"
  using assms
  by (simp add: import_body_def create_model_def Let_def run_simps py_print_def read_obj_def)

lemma obtain_model_missing_file:
  assumes "files h (os_path_join baseDir mf) = None" "\<not> in_objects (os_path_basename mf) sc"
  shows "obtain_model (importWoWOBJ (Suc n) h cfg) baseDir mf reset sc =
         Raised FileNotFoundError
           (sc\<lparr>stdout := stdout sc @ [''Parsing OBJ: '' @ snd (os_path_split (os_path_join baseDir mf))]\<rparr>)"
  using assms by (simp add: obtain_model_def run_simps import_missing_file del: importWoWOBJ.simps)




subsection \<open>Scale of a copied placement\<close>

text \<open>
  Claim C1 asks that an empty \<^verbatim>\<open>ScaleFactor\<close> leaves the scale at 1. The table \<open>scaled\<close>
  places \<^verbatim>\<open>tree.obj\<close> twice as an \<^verbatim>\<open>m2\<close>, first with \<^verbatim>\<open>ScaleFactor\<close> 2, then with an empty
  \<^verbatim>\<open>ScaleFactor\<close>. The second placement copies the first object (line 483); the copy path
  resets the rotation (lines 484 and 485) but not the scale, and line 496 leaves it alone:
  the second placement has scale 2 on every axis.
\<close>

theorem second_m2_copy_keeps_scale_of_first:
  "(case importWoWOBJAddon 2 example_host ''scaled.obj'' (flags False True False False) empty_scene of
      Done i sc \<Rightarrow> map (\<lambda>b. (name b, scale b)) (objects sc)
    | _ \<Rightarrow> [])
   = [(''scaled.obj'', (1, 1, 1)), (''Doodads'', (1, 1, 1)),
      (''tree.obj'', (2, 2, 2)), (''tree.obj.001'', (2, 2, 2))]"
  by (simp add: eval_defs example_facts)

section \<open>References to files already in the scene\<close>

subsection \<open>Objects by name\<close>

lemma index_of_Some_iff:
  "index_of nm obs = Some k \<longleftrightarrow>
     k < length obs \<and> name (obs ! k) = nm \<and> (\<forall>j<k. name (obs ! j) \<noteq> nm)"
proof (induction obs arbitrary: k)
  case Nil
  then show ?case by simp
next
  case (Cons ob obs)
  show ?case
  proof (cases "name ob = nm")
    case True
    then show ?thesis by (cases k) auto
  next
    case False
    then show ?thesis
      by (cases k) (auto simp: Cons.IH less_Suc_eq_0_disj)
  qed
qed

lemma index_of_None_iff: "index_of nm obs = None \<longleftrightarrow> nm \<notin> name ` set obs"
  by (induction obs) auto

lemma in_objects_index_of: "in_objects nm sc \<longleftrightarrow> (\<exists>k. index_of nm (objects sc) = Some k)"
  using index_of_None_iff [of nm "objects sc"] by (auto simp: in_objects_def)

lemma index_of_extends:
  assumes "index_of nm (objects sc) = Some k" and "extends sc sc'"
  shows "index_of nm (objects sc') = Some k"
  using assms by (auto simp: index_of_Some_iff extends_nth)

lemma in_objects_extends: "in_objects nm sc \<Longrightarrow> extends sc sc' \<Longrightarrow> in_objects nm sc'"
  by (auto simp: in_objects_index_of dest: index_of_extends)

lemma unique_name_fresh: "nm \<notin> set used \<Longrightarrow> unique_name used nm = nm"
  by (simp add: unique_name_def)

text \<open>What \<open>create_model\<close> adds to the scene: one mesh and, after every older object, the
  object of the file.\<close>

lemma create_model_post:
  assumes "create_model h cfg f sc = Done obj sc1"
  shows "obj = length (objects sc) \<and> length (objects sc1) = Suc (length (objects sc)) \<and>
         take (length (objects sc)) (objects sc1) = objects sc \<and>
         name (objects sc1 ! obj) = unique_name (map name (objects sc)) (os_path_basename f) \<and>
         data (objects sc1 ! obj) = Some (length (mesh_data sc))"
  using assms
  by (auto simp: create_model_def Let_def run_simps prim_defs lift_def
      split: outcome.splits sum.splits if_splits)

lemma create_model_in_objects:
  assumes "create_model h cfg f sc = Done obj sc1"
  shows "in_objects (os_path_basename f) sc1"
proof (cases "os_path_basename f \<in> set (map name (objects sc))")
  case True
  then have "os_path_basename f \<in> set (map name (take (length (objects sc)) (objects sc1)))"
    using create_model_post [OF assms] by simp
  then show ?thesis
    unfolding in_objects_def using set_take_subset [of "length (objects sc)" "objects sc1"]
    by auto
next
  case False
  then have "name (objects sc1 ! obj) = os_path_basename f" "obj < length (objects sc1)"
    using create_model_post [OF assms] by (auto simp: unique_name_fresh)
  then show ?thesis
    unfolding in_objects_def by (metis nth_mem image_eqI set_map)
qed

text \<open>The copy of an existing object, as a scene.\<close>

lemma copy_existing_result:
  assumes "index_of nm (objects sc) = Some k"
  shows "copy_existing nm reset sc =
         Done (length (objects sc))
           (sc\<lparr>objects := objects sc @
                 [(objects sc ! k)\<lparr>name := unique_name (map name (objects sc)) nm,
                    rotation_euler := (if reset then (radians 90, 0, 0)
                                       else rotation_euler (objects sc ! k))\<rparr>],
               collection := collection sc @ [length (objects sc)]\<rparr>)"
proof -
  have "name (objects sc ! k) = nm"
    using assms by (simp add: index_of_Some_iff)
  then show ?thesis
    using assms by (simp add: copy_existing_def run_simps prim_defs set_x_def)
qed




section \<open>Rows that share a mesh\<close>

lemma os_path_basename_join: "os_path_basename (os_path_join a b) = os_path_basename b"
proof -
  have 1: "takeWhile (\<lambda>c. c \<noteq> CHR ''/'') (xs @ CHR ''/'' # ys) = takeWhile (\<lambda>c. c \<noteq> CHR ''/'') xs" for xs ys
    by (induction xs) auto
  show ?thesis
  proof (cases "take 1 b = ''/''")
    case True
    then show ?thesis by (simp add: os_path_join_def)
  next
    case False
    show ?thesis
    proof (cases "a = []")
      case True
      with False show ?thesis by (simp add: os_path_join_def)
    next
      case nonempty: False
      then obtain a' c where a: "a = a' @ [c]"
        by (metis rev_exhaust)
      show ?thesis
        using False by (auto simp: os_path_join_def os_path_basename_def a 1)
    qed
  qed
qed

subsection \<open>Steps that edit one object\<close>

lemma reflp_edits_only: "reflp (edits_only i)"
  by (simp add: reflp_def edits_only_def)

lemma transp_edits_only: "transp (edits_only i)"
  by (auto simp: transp_def edits_only_def)

lemma edits_only_set_obj:
  assumes "\<And>b. data (f b) = data b"
  shows "preserves (edits_only i) (set_obj i f)"
proof -
  have "data (xs[i := f (xs ! i)] ! i) = data (xs ! i)" for xs
    by (metis assms list_update_beyond nth_list_update_eq not_less)
  then show ?thesis
    by (auto intro!: preservesI simp: run_simps set_obj_def edits_only_def)
qed

lemmas edits_only_intros =
  preserves_bind [OF transp_edits_only] preserves_ret [OF reflp_edits_only]
  preserves_lift [OF reflp_edits_only] edits_only_set_obj preserves_if

lemma edits_only_apply_scale: "preserves (edits_only i) (apply_scale h row i)"
  unfolding apply_scale_def by (rule edits_only_intros | simp)+

lemma edits_only_adt_rotation: "preserves (edits_only i) (adt_rotation h row i)"
  unfolding adt_rotation_def by (rule edits_only_intros | simp)+

lemma edits_only_places:
  "preserves (edits_only i) (m2_place h dp row i)"
  "preserves (edits_only i) (gobj_place h gp row i)"
  unfolding m2_place_def gobj_place_def
  by (rule edits_only_intros edits_only_apply_scale edits_only_adt_rotation | simp)+

subsection \<open>The object a row places and the object of that name\<close>

lemma import_post:
  assumes "importWoWOBJ n h cfg f g sc = Done i sc'"
  shows "\<exists>sc1. create_model h cfg f sc = Done i sc1 \<and> extends sc1 sc'"
proof (cases n)
  case 0
  with assms show ?thesis by simp
next
  case (Suc m)
  with assms obtain sc1 where c: "create_model h cfg f sc = Done i sc1"
    and p: "placements (importWoWOBJ m h cfg) h cfg f (fst (os_path_split f)) i g sc1 = Done () sc'"
    by (auto simp: import_body_def run_simps split: outcome.splits)
  have "extends sc1 sc'"
    using p by (rule preservesD(1) [OF extends_placements [OF extends_importWoWOBJ]])
  with c show ?thesis by blast
qed

lemma shares_named_extends:
  assumes "shares_named nm i sc" and "extends sc sc'"
  shows "shares_named nm i sc'"
proof -
  from assms(1) obtain k where k: "index_of nm (objects sc) = Some k"
    and i: "i < length (objects sc)" and d: "data (objects sc ! i) = data (objects sc ! k)"
    by (auto simp: shares_named_def split: option.splits)
  have "k < length (objects sc)" using k by (simp add: index_of_Some_iff)
  with i d assms(2) index_of_extends [OF k assms(2)] show ?thesis
    by (auto simp: shares_named_def extends_nth)
qed

lemma obtain_model_shares:
  assumes "obtain_model (importWoWOBJ n h cfg) baseDir mf reset sc = Done i sc'"
  shows "shares_named (os_path_basename mf) i sc'"
proof (cases "in_objects (os_path_basename mf) sc")
  case True
  then obtain k where k: "index_of (os_path_basename mf) (objects sc) = Some k"
    by (auto simp: in_objects_index_of)
  then have kl: "k < length (objects sc)" by (simp add: index_of_Some_iff)
  from True assms have "copy_existing (os_path_basename mf) reset sc = Done i sc'"
    by (simp add: obtain_model_def run_simps)
  then have sc': "i = length (objects sc)"
    "objects sc' = objects sc @
         [(objects sc ! k)\<lparr>name := unique_name (map name (objects sc)) (os_path_basename mf),
            rotation_euler := (if reset then (radians 90, 0, 0)
                               else rotation_euler (objects sc ! k))\<rparr>]"
    by (auto simp: copy_existing_result [OF k])
  have "index_of (os_path_basename mf) (objects sc') = Some k"
    using k kl by (auto simp: index_of_Some_iff sc' nth_append)
  then show ?thesis
    using kl by (simp add: shares_named_def sc' nth_append)
next
  case False
  with assms have "importWoWOBJ n h cfg (os_path_join baseDir mf) None sc = Done i sc'"
    by (simp add: obtain_model_def run_simps)
  then obtain sc1 where c: "create_model h cfg (os_path_join baseDir mf) sc = Done i sc1"
    and e: "extends sc1 sc'"
    using import_post by blast
  note post = create_model_post [OF c]
  have nm: "name (objects sc1 ! i) = os_path_basename mf"
    using post False by (auto simp: os_path_basename_join in_objects_def unique_name_fresh)
  have "\<forall>j<i. name (objects sc1 ! j) \<noteq> os_path_basename mf"
  proof (intro allI impI)
    fix j assume "j < i"
    then have "objects sc1 ! j = objects sc ! j" "j < length (objects sc)"
      using post by (metis nth_take, simp)
    then show "name (objects sc1 ! j) \<noteq> os_path_basename mf"
      using False by (metis in_objects_def nth_mem image_eqI set_map)
  qed
  then have "index_of (os_path_basename mf) (objects sc1) = Some i"
    using nm post by (simp add: index_of_Some_iff)
  then have "shares_named (os_path_basename mf) i sc1"
    using post by (simp add: shares_named_def)
  then show ?thesis using e by (rule shares_named_extends)
qed

lemma adt_m2_shares:
  assumes "adt_m2 (importWoWOBJ n h cfg) h baseDir dp row sc = Done i sc'"
    and "row_str row ''ModelFile'' = Inr mf"
  shows "shares_named (os_path_basename mf) i sc'"
proof -
  from assms obtain s2 where o: "obtain_model (importWoWOBJ n h cfg) baseDir mf True
        (sc\<lparr>stdout := stdout sc @ [''ADT M2 import: '' @ mf]\<rparr>) = Done i s2"
    and p: "m2_place h dp row i s2 = Done () sc'"
    by (auto simp: adt_m2_def run_simps py_print_def split: outcome.splits)
  have "extends s2 sc'"
    using p by (rule preservesD(1) [OF extends_places(2)])
  with obtain_model_shares [OF o] show ?thesis by (rule shares_named_extends)
qed

lemma adt_gobj_shares:
  assumes "adt_gobj (importWoWOBJ n h cfg) h baseDir gp row sc = Done i sc'"
    and "row_str row ''ModelFile'' = Inr mf"
  shows "shares_named (os_path_basename mf) i sc'"
proof -
  from assms obtain s2 where o: "obtain_model (importWoWOBJ n h cfg) baseDir mf True sc = Done i s2"
    and p: "gobj_place h gp row i s2 = Done () sc'"
    by (auto simp: adt_gobj_def run_simps split: outcome.splits)
  have "extends s2 sc'"
    using p by (rule preservesD(1) [OF extends_places(3)])
  with obtain_model_shares [OF o] show ?thesis by (rule shares_named_extends)
qed

text \<open>A placement that copies: a new last object with the mesh of the named one, every
  older object as it was.\<close>

lemma copy_then_place:
  assumes k: "index_of nm (objects sc) = Some k"
    and o: "obtain_model rec baseDir mf True sc = Done i s2" and nm: "nm = os_path_basename mf"
    and p: "edits_only i s2 sc'"
  shows "i = length (objects sc) \<and> take (length (objects sc)) (objects sc') = objects sc \<and>
         length (objects sc') = Suc (length (objects sc)) \<and>
         data (objects sc' ! i) = data (objects sc ! k)"
proof -
  have "in_objects nm sc" using k by (auto simp: in_objects_index_of)
  with o nm have "copy_existing nm True sc = Done i s2"
    by (simp add: obtain_model_def run_simps)
  then have "i = length (objects sc)"
    "objects s2 = objects sc @
         [(objects sc ! k)\<lparr>name := unique_name (map name (objects sc)) nm,
            rotation_euler := (radians 90, 0, 0)\<rparr>]"
    by (auto simp: copy_existing_result [OF k])
  with p show ?thesis
    by (auto simp: edits_only_def)
qed

lemma in_objects_stdout [simp]: "in_objects nm (sc\<lparr>stdout := out\<rparr>) = in_objects nm sc"
  by (simp add: in_objects_def)

lemma adt_m2_copy:
  assumes "adt_m2 rec h baseDir dp row sc = Done i sc'"
    and "row_str row ''ModelFile'' = Inr mf"
    and k: "index_of (os_path_basename mf) (objects sc) = Some k"
  shows "i = length (objects sc) \<and> take (length (objects sc)) (objects sc') = objects sc \<and>
         length (objects sc') = Suc (length (objects sc)) \<and>
         data (objects sc' ! i) = data (objects sc ! k)"
proof -
  let ?sc = "sc\<lparr>stdout := stdout sc @ [''ADT M2 import: '' @ mf]\<rparr>"
  from assms(1,2) obtain s2 where o: "obtain_model rec baseDir mf True ?sc = Done i s2"
    and p: "m2_place h dp row i s2 = Done () sc'"
    by (auto simp: adt_m2_def run_simps py_print_def split: outcome.splits)
  have "edits_only i s2 sc'"
    using p by (rule preservesD(1) [OF edits_only_places(1)])
  from copy_then_place [OF _ o refl this, of k] k show ?thesis by auto
qed

lemma adt_gobj_copy:
  assumes "adt_gobj rec h baseDir gp row sc = Done i sc'"
    and "row_str row ''ModelFile'' = Inr mf"
    and k: "index_of (os_path_basename mf) (objects sc) = Some k"
  shows "i = length (objects sc) \<and> take (length (objects sc)) (objects sc') = objects sc \<and>
         length (objects sc') = Suc (length (objects sc)) \<and>
         data (objects sc' ! i) = data (objects sc ! k)"
proof -
  from assms(1,2) obtain s2 where o: "obtain_model rec baseDir mf True sc = Done i s2"
    and p: "gobj_place h gp row i s2 = Done () sc'"
    by (auto simp: adt_gobj_def run_simps split: outcome.splits)
  have "edits_only i s2 sc'"
    using p by (rule preservesD(1) [OF edits_only_places(2)])
  from copy_then_place [OF k o refl this] show ?thesis .
qed



section \<open>Material libraries\<close>

lemma mtl_lines_bindings:
  "mtl_lines baseDir ls (cur, m) = Inr (cur', m') \<Longrightarrow>
   m' = m ++ map_of (rev (map (\<lambda>(n, f). (n, os_path_join baseDir f)) (mtl_bindings cur ls)))"
proof (induction ls arbitrary: cur m)
  case Nil
  then show ?case by simp
next
  case (Cons l ls)
  show ?case
  proof (cases "split_ws str_space l")
    case Nil
    with Cons show ?thesis by (simp add: mtl_line_def)
  next
    case toks: (Cons t args)
    show ?thesis
    proof (cases args)
      case Nil
      with toks Cons show ?thesis
        by (auto simp: mtl_line_def split: if_splits)
    next
      case (Cons a rest)
      with toks Cons.prems Cons.IH show ?thesis
        by (auto simp: mtl_line_def map_add_upd_left split: if_splits)
    qed
  qed
qed

lemma map_of_last_wins:
  assumes "n \<notin> fst ` set ys"
  shows "map_of (rev (xs @ (n, v) # ys)) n = Some v"
proof -
  have "map_of (rev ys) n = None"
    using assms by (simp add: map_of_eq_None_iff)
  then show ?thesis
    by (simp add: map_add_def)
qed

text \<open>The directory part of a path, as \<open>os_path_split\<close> returns it, is empty, or all
  slashes, or does not end with a slash.\<close>

lemma split_head_shape:
  "fst (os_path_split p) = [] \<or>
   (fst (os_path_split p) \<noteq> [] \<and> set (fst (os_path_split p)) = {CHR ''/''}) \<or>
   (fst (os_path_split p) \<noteq> [] \<and> last (fst (os_path_split p)) \<noteq> CHR ''/'')"
proof -
  define head where "head = take (length p - length (os_path_basename p)) p"
  show ?thesis
  proof (cases "head = [] \<or> head = replicate (length head) CHR ''/''")
    case True
    then have "fst (os_path_split p) = head"
      by (simp add: os_path_split_def head_def Let_def)
    moreover have "head = [] \<or> set head = {CHR ''/''}"
      using True by (metis length_0_conv set_replicate)
    ultimately show ?thesis by auto
  next
    case False
    then have eq: "fst (os_path_split p) = rev (dropWhile (\<lambda>c. c = CHR ''/'') (rev head))"
      by (simp add: os_path_split_def head_def Let_def)
    have "\<exists>x\<in>set head. x \<noteq> CHR ''/''"
      using False by (metis replicate_length_same)
    then have ne: "dropWhile (\<lambda>c. c = CHR ''/'') (rev head) \<noteq> []"
      by (auto simp: dropWhile_eq_Nil_conv)
    then have "hd (dropWhile (\<lambda>c. c = CHR ''/'') (rev head)) \<noteq> CHR ''/''"
      using hd_dropWhile by blast
    with ne show ?thesis
      by (simp add: eq last_rev)
  qed
qed

lemma basename_after_slash:
  assumes "CHR ''/'' \<notin> set b"
  shows "os_path_basename (a @ CHR ''/'' # b) = b"
proof -
  have "takeWhile (\<lambda>c. c \<noteq> CHR ''/'') (rev b @ CHR ''/'' # rev a) = rev b"
    using assms by (induction b rule: rev_induct) auto
  then show ?thesis by (simp add: os_path_basename_def)
qed

lemma library_in_obj_directory:
  assumes mtl: "CHR ''/'' \<notin> set mtl" "mtl \<noteq> []"
  shows "fst (os_path_split (os_path_join (fst (os_path_split objectFile)) mtl))
         = fst (os_path_split objectFile)"
proof -
  define d where "d = fst (os_path_split objectFile)"
  have nostart: "take 1 mtl \<noteq> ''/''"
    using mtl by (cases mtl) auto
  have tw: "takeWhile (\<lambda>c. c \<noteq> CHR ''/'') (rev mtl) = rev mtl"
    using mtl by (auto simp: takeWhile_eq_all_conv)
  consider "d = []" | "d \<noteq> []" "set d = {CHR ''/''}" | "d \<noteq> []" "last d \<noteq> CHR ''/''"
    using split_head_shape [of objectFile] unfolding d_def by blast
  then have "fst (os_path_split (os_path_join d mtl)) = d"
  proof cases
    case 1
    then show ?thesis
      using nostart by (simp add: os_path_join_def os_path_split_def os_path_basename_def tw)
  next
    case 2
    then obtain d' where d: "d = d' @ ''/''"
      by (metis append_butlast_last_id last_in_set singletonD)
    have all: "d = replicate (length d) CHR ''/''"
      using 2 by (metis replicate_length_same singletonD)
    have j: "os_path_join d mtl = d @ mtl"
      using nostart d by (simp add: os_path_join_def)
    have b: "os_path_basename (d @ mtl) = mtl"
      using basename_after_slash [OF mtl(1), of d'] by (simp add: d)
    show ?thesis
      unfolding j using all by (simp add: os_path_split_def b Let_def)
  next
    case 3
    have j: "os_path_join d mtl = d @ CHR ''/'' # mtl"
      using nostart 3 by (simp add: os_path_join_def)
    have b: "os_path_basename (d @ CHR ''/'' # mtl) = mtl"
      by (rule basename_after_slash [OF mtl(1)])
    have notall: "d @ ''/'' \<noteq> replicate (Suc (length d)) CHR ''/''"
    proof
      assume "d @ ''/'' = replicate (Suc (length d)) CHR ''/''"
      then have "set (d @ ''/'') \<subseteq> {CHR ''/''}"
        by (metis set_replicate_conv_if subset_refl empty_subsetI)
      then have sub: "set d \<subseteq> {CHR ''/''}"
        by simp
      have "last d \<in> set d"
        using 3 by simp
      with sub have "last d = CHR ''/''"
        by blast
      with 3 show False
        by simp
    qed
    have dw: "dropWhile (\<lambda>c. c = CHR ''/'') (rev d) = rev d"
      using 3 by (cases "rev d") (auto simp: last_rev [symmetric] hd_rev)
    show ?thesis
      unfolding j using notall by (simp add: os_path_split_def b Let_def dw)
  qed
  then show ?thesis
    by (simp add: d_def)
qed

text \<open>
  Claim C8 asks that each \<^verbatim>\<open>map_Kd\<close> line binds the current material name to a path relative
  to the directory of the library file, the last binding of a name winning. Line 268 joins
  the texture to \<open>baseDir\<close>, the directory of the OBJ file, and the library is opened at
  \<^verbatim>\<open>os.path.join(baseDir, mtlfile)\<close>; the two directories differ when the \<^verbatim>\<open>mtllib\<close> line
  names the library with a directory part.

  As amended: when the library can be read, the materials are the bindings of the library in
  the order of its lines (\<open>mtl_bindings\<close>: the name of the latest \<^verbatim>\<open>newmtl\<close> line, empty
  before the first, with the second word of each \<^verbatim>\<open>map_Kd\<close> line), each texture joined to the
  directory of the OBJ file; the last binding of a name wins; and when the \<^verbatim>\<open>mtllib\<close> name
  has no directory part, the directory of the OBJ file is the directory of the library.
\<close>

theorem materials_bound_in_obj_directory:
  assumes "fs (os_path_join baseDir mtl) = Some ls" and "mtl \<noteq> []"
    and "load_materials fs baseDir mtl = Inr mats"
  shows "mats = map_of (rev (map (\<lambda>(n, f). (n, os_path_join baseDir f)) (mtl_bindings [] ls))) \<and>
         (\<forall>xs n f ys. mtl_bindings [] ls = xs @ (n, f) # ys \<and> n \<notin> fst ` set ys \<longrightarrow>
            mats n = Some (os_path_join baseDir f)) \<and>
         (\<forall>objectFile. baseDir = fst (os_path_split objectFile) \<and> CHR ''/'' \<notin> set mtl \<longrightarrow>
            fst (os_path_split (os_path_join baseDir mtl)) = baseDir)"
proof -
  from assms obtain cur where "mtl_lines baseDir ls ([], Map.empty) = Inr (cur, mats)"
    by (auto simp: load_materials_def split: sum.splits)
  then have eq: "mats = map_of (rev (map (\<lambda>(n, f). (n, os_path_join baseDir f)) (mtl_bindings [] ls)))"
    by (auto dest: mtl_lines_bindings)
  have last: "mats n = Some (os_path_join baseDir f)"
    if "mtl_bindings [] ls = xs @ (n, f) # ys" "n \<notin> fst ` set ys" for xs n f ys
  proof -
    have "n \<notin> fst ` set (map (\<lambda>(n, f). (n, os_path_join baseDir f)) ys)"
      using that(2) by (auto simp: image_iff)
    from map_of_last_wins [OF this, of "map (\<lambda>(n, f). (n, os_path_join baseDir f)) xs" "os_path_join baseDir f"]
    show ?thesis by (simp add: eq that(1))
  qed
  from eq last library_in_obj_directory [OF _ assms(2)] show ?thesis by blast
qed

theorem materials_bound_in_obj_directory_witness:
  "load_materials (map_of [(''d/a.mtl'', [''newmtl m'', ''map_Kd a.png'', ''map_Kd b.png''])])
     (fst (os_path_split ''d/a.obj'')) ''a.mtl'' = Inr (map_of [(''m'', ''d/b.png'')]) \<and>
   fst (os_path_split (os_path_join (fst (os_path_split ''d/a.obj'')) ''a.mtl'')) =
     fst (os_path_split ''d/a.obj'')"
proof -
  let ?fs = "map_of [(''d/a.mtl'', [''newmtl m'', ''map_Kd a.png'', ''map_Kd b.png''])]"
  have d: "fst (os_path_split ''d/a.obj'') = ''d''"
    by (simp add: os_path_split_def os_path_basename_def)
  have f: "?fs (os_path_join ''d'' ''a.mtl'') = Some [''newmtl m'', ''map_Kd a.png'', ''map_Kd b.png'']"
    by (simp add: os_path_join_def)
  have ne: "''a.mtl'' \<noteq> []" by simp
  have b: "mtl_bindings [] [''newmtl m'', ''map_Kd a.png'', ''map_Kd b.png''] =
      [(''m'', ''a.png''), (''m'', ''b.png'')]"
    by (simp add: split_ws_def str_space_def)
  obtain mats where l: "load_materials ?fs ''d'' ''a.mtl'' = Inr mats"
    by (simp add: load_materials_def os_path_join_def mtl_line_def split_ws_def str_space_def)
  note inst = materials_bound_in_obj_directory [OF f ne l]
  from inst have m: "mats = map_of (rev (map (\<lambda>(n, f). (n, os_path_join ''d'' f))
      (mtl_bindings [] [''newmtl m'', ''map_Kd a.png'', ''map_Kd b.png''])))"
    by (rule conjunct1)
  from inst have "''d'' = fst (os_path_split ''d/a.obj'') \<and> CHR ''/'' \<notin> set ''a.mtl'' \<longrightarrow>
      fst (os_path_split (os_path_join ''d'' ''a.mtl'')) = ''d''"
    by blast
  then have lib: "fst (os_path_split (os_path_join ''d'' ''a.mtl'')) = ''d''"
    by (simp add: d)
  have "mats = map_of [(''m'', ''d/b.png'')]"
    unfolding m b by (simp add: os_path_join_def fun_eq_iff)
  with l lib show ?thesis
    by (simp add: d)
qed

text \<open>
  Against claim C8 as stated: the file \<^verbatim>\<open>d/a.obj\<close> names the library \<^verbatim>\<open>sub/a.mtl\<close>, whose
  material \<^verbatim>\<open>m\<close> has the texture \<^verbatim>\<open>t.png\<close>. The material is bound to \<^verbatim>\<open>d/t.png\<close>; relative to
  the directory of the library it would be \<^verbatim>\<open>d/sub/t.png\<close>.
\<close>

theorem texture_not_relative_to_library:
  "(case load_materials (map_of [(''d/sub/a.mtl'', [''newmtl m'', ''map_Kd t.png''])])
           (fst (os_path_split ''d/a.obj'')) ''sub/a.mtl'' of
      Inr mats \<Rightarrow> mats ''m''
    | Inl e \<Rightarrow> None) = Some ''d/t.png'' \<and>
   os_path_join (fst (os_path_split (os_path_join (fst (os_path_split ''d/a.obj'')) ''sub/a.mtl'')))
     ''t.png'' = ''d/sub/t.png''"
  by (simp add: load_materials_def os_path_join_def os_path_split_def os_path_basename_def
      mtl_line_def split_ws_def str_space_def)

end
